theory Spec2Isabelle
  imports Main
begin

section \<open>JavaScript values used by the page\<close>

text \<open>
  An optional or nullable field of a TypeScript type (\<^verbatim>\<open>x?: T | null\<close>) holds
  \<^verbatim>\<open>undefined\<close>, \<^verbatim>\<open>null\<close> or a value of \<^verbatim>\<open>T\<close>.
  Strings are lists of characters; \<^verbatim>\<open>length\<close> counts the characters of the list,
  as JavaScript counts the code units of the string.
\<close>

datatype 'a nullable = Undefined | Null | Val 'a

text \<open>Truthiness of a string, a boolean and an object reference (\<^verbatim>\<open>!value\<close>, \<^verbatim>\<open>a || b\<close>).\<close>

fun truthyStr :: "string nullable \<Rightarrow> bool" where
  "truthyStr (Val s) = (s \<noteq> [])"
| "truthyStr _ = False"

fun truthyBool :: "bool nullable \<Rightarrow> bool" where
  "truthyBool (Val b) = b"
| "truthyBool _ = False"

fun truthyObj :: "'a nullable \<Rightarrow> bool" where
  "truthyObj (Val _) = True"
| "truthyObj _ = False"

text \<open>
  \<^verbatim>\<open>String.prototype.slice(start, end)\<close>: a negative index counts from the end, both
  indices are clamped to the string, and an empty span gives the empty string.
\<close>

definition slice :: "string \<Rightarrow> int \<Rightarrow> int \<Rightarrow> string" where
  "slice s start stop =
     (let len = int (length s);
          lo = (if start < 0 then max (len + start) 0 else min start len);
          hi = (if stop < 0 then max (len + stop) 0 else min stop len)
      in take (nat (hi - lo)) (drop (nat lo) s))"

definition sliceFrom :: "string \<Rightarrow> int \<Rightarrow> string" where
  "sliceFrom s start = slice s start (int (length s))"

text \<open>
  A value of type \<^verbatim>\<open>unknown\<close> or \<^verbatim>\<open>any\<close> that came out of \<^verbatim>\<open>JSON.parse\<close>.
  \<open>JNum n\<close> is the number whose value is the integer \<open>n\<close>; the numbers of the model
  are the safe integers (of magnitude below \<open>2 ^ 53\<close>), which a double holds exactly,
  whose text is their decimal numeral, and on which the arithmetic of the page (a
  comparison and a multiplication by 1000, followed by the range check of a date) gives
  the result of the exact arithmetic. An object is the list of its members in insertion
  order, each name occurring once.
\<close>

datatype jsval =
    JUndefined
  | JNull
  | JBool bool
  | JNum int
  | JStr string
  | JArr "jsval list"
  | JObj "(string \<times> jsval) list"

fun truthy :: "jsval \<Rightarrow> bool" where
  "truthy JUndefined = False"
| "truthy JNull = False"
| "truthy (JBool b) = b"
| "truthy (JNum n) = (n \<noteq> 0)"
| "truthy (JStr s) = (s \<noteq> [])"
| "truthy (JArr _) = True"
| "truthy (JObj _) = True"

text \<open>\<^verbatim>\<open>value == null\<close>: true of \<^verbatim>\<open>null\<close> and \<^verbatim>\<open>undefined\<close> only.\<close>

fun nullish :: "jsval \<Rightarrow> bool" where
  "nullish JUndefined = True"
| "nullish JNull = True"
| "nullish _ = False"

text \<open>
  \<^verbatim>\<open>o.key\<close> for one of the member names the page reads (none of them is a property of
  a built-in prototype): the member of an object, \<^verbatim>\<open>undefined\<close> when the object has
  no such member or when \<open>o\<close> is a primitive or an array. Reading a property of
  \<^verbatim>\<open>null\<close> or \<^verbatim>\<open>undefined\<close> raises a TypeError; every caller below guards
  against it, so \<open>getProp\<close> is only applied to values that are not nullish.
\<close>

fun getProp :: "jsval \<Rightarrow> string \<Rightarrow> jsval" where
  "getProp (JObj ms) k = (case map_of ms k of None \<Rightarrow> JUndefined | Some v \<Rightarrow> v)"
| "getProp _ k = JUndefined"

text \<open>\<^verbatim>\<open>a ?? b\<close>\<close>

definition nullishOr :: "jsval \<Rightarrow> jsval \<Rightarrow> jsval" where
  "nullishOr a b = (if nullish a then b else a)"

subsection \<open>Numbers and strings\<close>

fun decimal :: "nat \<Rightarrow> string" where
  "decimal n =
     (if n < 10 then [''0123456789'' ! n]
      else decimal (n div 10) @ [''0123456789'' ! (n mod 10)])"

declare decimal.simps [simp del]

text \<open>\<^verbatim>\<open>String(n)\<close> for an integer \<open>n\<close>.\<close>

definition numberToString :: "int \<Rightarrow> string" where
  "numberToString n = (if n < 0 then ''-'' @ decimal (nat (- n)) else decimal (nat n))"

text \<open>\<^verbatim>\<open>Array.prototype.join\<close> on strings.\<close>

fun joinWith :: "string \<Rightarrow> string list \<Rightarrow> string" where
  "joinWith sep [] = []"
| "joinWith sep [x] = x"
| "joinWith sep (x # y # ys) = x @ sep @ joinWith sep (y # ys)"

text \<open>
  \<^verbatim>\<open>String(v)\<close> and the conversion of a template literal. An array is the join of its
  elements with a comma, \<^verbatim>\<open>null\<close> and \<^verbatim>\<open>undefined\<close> elements giving the empty string.
\<close>

fun toString :: "jsval \<Rightarrow> string" where
  "toString JUndefined = ''undefined''"
| "toString JNull = ''null''"
| "toString (JBool b) = (if b then ''true'' else ''false'')"
| "toString (JNum n) = numberToString n"
| "toString (JStr s) = s"
| "toString (JArr xs) = joinWith '','' (map (\<lambda>x. if nullish x then [] else toString x) xs)"
| "toString (JObj ms) = ''[object Object]''"

text \<open>\<^verbatim>\<open>String.prototype.padStart(n, "0")\<close>\<close>

definition padStart :: "nat \<Rightarrow> string \<Rightarrow> string" where
  "padStart n s = replicate (n - length s) (CHR ''0'') @ s"

text \<open>\<^verbatim>\<open>String.prototype.replace(c, r)\<close> with a one-character pattern: the first occurrence only.\<close>

fun replaceFirst :: "char \<Rightarrow> string \<Rightarrow> string \<Rightarrow> string" where
  "replaceFirst c r [] = []"
| "replaceFirst c r (x # xs) = (if x = c then r @ xs else x # replaceFirst c r xs)"

subsection \<open>Date\<close>

text \<open>
  A time value is a number of milliseconds since 1970-01-01T00:00:00Z, or NaN
  (\<open>None\<close>, an invalid date). \<open>timeClip\<close> is the range check of the \<^verbatim>\<open>Date\<close>
  constructor: a date holds at most 8.64e15 milliseconds on either side of the epoch.
\<close>

definition msPerDay :: int where
  "msPerDay = 86400000"

definition timeClip :: "int \<Rightarrow> int option" where
  "timeClip t = (if \<bar>t\<bar> \<le> 8640000000000000 then Some t else None)"

text \<open>
  The proleptic Gregorian calendar: the day number (days since the epoch) of a civil
  date, and the civil date (year, month 1..12, day 1..31) of a day number. Both count
  in eras of 400 years (146097 days) with the year starting on the first of March.
\<close>

definition isLeapYear :: "int \<Rightarrow> bool" where
  "isLeapYear y = (y mod 4 = 0 \<and> (y mod 100 \<noteq> 0 \<or> y mod 400 = 0))"

definition daysInMonth :: "int \<Rightarrow> int \<Rightarrow> int" where
  "daysInMonth y m =
     (if m = 2 then (if isLeapYear y then 29 else 28)
      else if m = 4 \<or> m = 6 \<or> m = 9 \<or> m = 11 then 30 else 31)"

definition daysFromCivil :: "int \<Rightarrow> int \<Rightarrow> int \<Rightarrow> int" where
  "daysFromCivil y m d =
     (let y' = (if m \<le> 2 then y - 1 else y);
          era = y' div 400;
          yoe = y' - era * 400;
          doy = (153 * (if m > 2 then m - 3 else m + 9) + 2) div 5 + d - 1;
          doe = yoe * 365 + yoe div 4 - yoe div 100 + doy
      in era * 146097 + doe - 719468)"

definition civilFromDays :: "int \<Rightarrow> int \<times> int \<times> int" where
  "civilFromDays z0 =
     (let z = z0 + 719468;
          era = z div 146097;
          doe = z - era * 146097;
          yoe = (doe - doe div 1460 + doe div 36524 - doe div 146096) div 365;
          y = yoe + era * 400;
          doy = doe - (365 * yoe + yoe div 4 - yoe div 100);
          mp = (5 * doy + 2) div 153;
          d = doy - (153 * mp + 2) div 5 + 1;
          m = (if mp < 10 then mp + 3 else mp - 9)
      in (if m \<le> 2 then y + 1 else y, m, d))"

text \<open>
  \<^verbatim>\<open>Date.prototype.toISOString\<close> of a valid date:
  \<^verbatim>\<open>YYYY-MM-DDTHH:mm:ss.sssZ\<close>, the year written with four digits from 0 to
  9999 and with a sign and six digits otherwise.
\<close>

definition isoYear :: "int \<Rightarrow> string" where
  "isoYear y =
     (if 0 \<le> y \<and> y \<le> 9999 then padStart 4 (decimal (nat y))
      else (if y < 0 then ''-'' else ''+'') @ padStart 6 (decimal (nat \<bar>y\<bar>)))"

definition pad2 :: "int \<Rightarrow> string" where
  "pad2 n = padStart 2 (decimal (nat n))"

definition toISOString :: "int \<Rightarrow> string" where
  "toISOString t =
     (let day = t div msPerDay;
          ms = t mod msPerDay;
          ymd = civilFromDays day
      in isoYear (fst ymd) @ ''-'' @ pad2 (fst (snd ymd)) @ ''-'' @ pad2 (snd (snd ymd)) @ ''T'' @
         pad2 (ms div 3600000) @ '':'' @ pad2 (ms div 60000 mod 60) @ '':'' @
         pad2 (ms div 1000 mod 60) @ ''.'' @ padStart 3 (decimal (nat (ms mod 1000))) @ ''Z'')"

text \<open>
  \<^verbatim>\<open>Date.parse\<close>. ECMAScript fixes the result for the date-only form
  \<^verbatim>\<open>YYYY-MM-DD\<close> of a date that exists: midnight UTC of that day. What any other
  string parses to is left to the implementation; it is the parameter \<open>host\<close>
  (\<open>None\<close> for NaN) of every function that builds a date from a string.
\<close>

definition isDigit :: "char \<Rightarrow> bool" where
  "isDigit c = (48 \<le> (of_char c :: nat) \<and> (of_char c :: nat) \<le> 57)"

definition digitsToInt :: "string \<Rightarrow> int" where
  "digitsToInt s = foldl (\<lambda>a c. 10 * a + (int (of_char c) - 48)) 0 s"

definition parseDateOnly :: "string \<Rightarrow> int option" where
  "parseDateOnly s =
     (if length s = 10 \<and> s ! 4 = CHR ''-'' \<and> s ! 7 = CHR ''-'' \<and>
         list_all isDigit (take 4 s @ take 2 (drop 5 s) @ drop 8 s)
      then
        (let y = digitsToInt (take 4 s);
             m = digitsToInt (take 2 (drop 5 s));
             d = digitsToInt (drop 8 s)
         in if 1 \<le> m \<and> m \<le> 12 \<and> 1 \<le> d \<and> d \<le> daysInMonth y m
            then Some (daysFromCivil y m d * msPerDay) else None)
      else None)"

type_synonym host = "string \<Rightarrow> int option"

definition dateParse :: "host \<Rightarrow> string \<Rightarrow> int option" where
  "dateParse host s =
     (case parseDateOnly s of
        Some t \<Rightarrow> Some t
      | None \<Rightarrow> (case host s of None \<Rightarrow> None | Some t \<Rightarrow> timeClip t))"

text \<open>
  \<^verbatim>\<open>new Date(value).getTime()\<close>: a string is parsed, a number is a time value, and
  any other value is converted first: a boolean and \<^verbatim>\<open>null\<close> to a number, an array
  or an object to its string.
\<close>

fun newDate :: "host \<Rightarrow> jsval \<Rightarrow> int option" where
  "newDate host (JStr s) = dateParse host s"
| "newDate host (JNum n) = timeClip n"
| "newDate host (JBool b) = Some (if b then 1 else 0)"
| "newDate host JNull = Some 0"
| "newDate host JUndefined = None"
| "newDate host v = dateParse host (toString v)"

section \<open>app.ts: formatting\<close>

text \<open>
  \<^verbatim>\<open>
  const formatDate = (value?: string): string => {
    if (!value) return "-";
    const date = new Date(value);
    if (Number.isNaN(date.getTime())) return value;
    return date.toISOString().slice(0, 10);
  };
  \<close>
  The argument is declared a string, but the callers pass members of parsed JSON
  unchecked; a value that does not parse as a date is returned as it is.
\<close>

definition formatDate :: "host \<Rightarrow> jsval \<Rightarrow> jsval" where
  "formatDate host v =
     (if \<not> truthy v then JStr ''-''
      else case newDate host v of
        None \<Rightarrow> v
      | Some t \<Rightarrow> JStr (slice (toISOString t) 0 10))"

text \<open>
  \<^verbatim>\<open>
  const formatTimestamp = (value?: string | number | null): string => {
    if (value == null) return "-";
    if (typeof value === "number") {
      const ms = value < 100000000000 ? value * 1000 : value;
      const date = new Date(ms);
      if (Number.isNaN(date.getTime())) return "-";
      return date.toISOString().slice(0, 16).replace("T", " ");
    }
    return formatDate(value);
  };
  \<close>
  \<open>formatMillis\<close> is the part that formats a number of milliseconds
  (\<^verbatim>\<open>new Date(ms)\<close> and the two lines after it).
\<close>

definition formatMillis :: "int \<Rightarrow> string" where
  "formatMillis ms =
     (case timeClip ms of
        None \<Rightarrow> ''-''
      | Some t \<Rightarrow> replaceFirst (CHR ''T'') '' '' (slice (toISOString t) 0 16))"

fun formatTimestamp :: "host \<Rightarrow> jsval \<Rightarrow> jsval" where
  "formatTimestamp host JUndefined = JStr ''-''"
| "formatTimestamp host JNull = JStr ''-''"
| "formatTimestamp host (JNum n) =
     (let ms = (if n < 100000000000 then n * 1000 else n) in JStr (formatMillis ms))"
| "formatTimestamp host v = formatDate host v"

section \<open>The network\<close>

text \<open>
  What \<^verbatim>\<open>fetch\<close> gives: the promise rejects (the transport failed, or the request was
  aborted by a timer), or it resolves to a response with a status code and a body.
  \<^verbatim>\<open>res.json()\<close> rejects on a body that is not JSON (\<open>Malformed\<close>) and resolves to
  the parsed value otherwise. \<^verbatim>\<open>res.ok\<close> is true of the status codes 200 to 299.

  The network is an oracle: \<open>net n url\<close> is the outcome of the request to \<open>url\<close> when
  \<open>n\<close> requests have been made before it, so the same address may answer differently
  each time. The requests made so far are a list of addresses, oldest first.
\<close>

datatype 'a body = Malformed | Json 'a

datatype 'a response = NetworkFailure | Http nat "'a body"

type_synonym 'a net = "nat \<Rightarrow> string \<Rightarrow> 'a response"

definition resOk :: "nat \<Rightarrow> bool" where
  "resOk st = (200 \<le> st \<and> st \<le> 299)"

definition fetch :: "'a net \<Rightarrow> string \<Rightarrow> string list \<Rightarrow> 'a response \<times> string list" where
  "fetch net url log = (net (length log) url, log @ [url])"

text \<open>The exceptions that the page's code can raise or receive.\<close>

datatype error =
    FetchRejected
  | SyntaxError
  | TypeError
  | Thrown string nat

section \<open>app.ts: the JSON probe\<close>

text \<open>
  \<^verbatim>\<open>
  const fetchJson = async (url: string): Promise<{ ok: boolean; data?: any }> => {
    try {
      const res = await fetch(url, { cache: "no-store" });
      if (!res.ok) return { ok: false };
      const data = await res.json().catch(() => null);
      return { ok: true, data };
    } catch {
      return { ok: false };
    }
  };
  \<close>
  \<open>fetchJsonTry\<close> is the body of the \<^verbatim>\<open>try\<close> block, \<open>Inl\<close> an exception raised in it.
\<close>

record 'a fetched =
  ok :: bool
  data :: "'a nullable"

definition fetchJsonTry :: "'a response \<Rightarrow> error + 'a fetched" where
  "fetchJsonTry r =
     (case r of
        NetworkFailure \<Rightarrow> Inl FetchRejected
      | Http st b \<Rightarrow>
          if \<not> resOk st then Inr \<lparr>ok = False, data = Undefined\<rparr>
          else Inr \<lparr>ok = True, data = (case b of Malformed \<Rightarrow> Null | Json v \<Rightarrow> Val v)\<rparr>)"

definition fetchJson :: "'a net \<Rightarrow> string \<Rightarrow> string list \<Rightarrow> 'a fetched \<times> string list" where
  "fetchJson net url log =
     (let (r, log1) = fetch net url log
      in case fetchJsonTry r of
           Inr res \<Rightarrow> (res, log1)
         | Inl e \<Rightarrow> (\<lparr>ok = False, data = Undefined\<rparr>, log1))"

text \<open>
  The probe of the legacy page (the second source file), which awaits \<^verbatim>\<open>res.json()\<close>
  inside the \<^verbatim>\<open>try\<close> block without a handler of its own:
  \<^verbatim>\<open>
      if (!res.ok) return { ok: false };
      const data = await res.json();
      return { ok: true, data };
  \<close>
\<close>

definition fetchJsonLegacyTry :: "'a response \<Rightarrow> error + 'a fetched" where
  "fetchJsonLegacyTry r =
     (case r of
        NetworkFailure \<Rightarrow> Inl FetchRejected
      | Http st b \<Rightarrow>
          if \<not> resOk st then Inr \<lparr>ok = False, data = Undefined\<rparr>
          else (case b of
                  Malformed \<Rightarrow> Inl SyntaxError
                | Json v \<Rightarrow> Inr \<lparr>ok = True, data = Val v\<rparr>))"

definition fetchJsonLegacy :: "'a net \<Rightarrow> string \<Rightarrow> string list \<Rightarrow> 'a fetched \<times> string list" where
  "fetchJsonLegacy net url log =
     (let (r, log1) = fetch net url log
      in case fetchJsonLegacyTry r of
           Inr res \<Rightarrow> (res, log1)
         | Inl e \<Rightarrow> (\<lparr>ok = False, data = Undefined\<rparr>, log1))"

section \<open>runtime-panel.ts\<close>

text \<open>
  \<^verbatim>\<open>
  export const trimModelId = (value?: string | null): string => {
    if (!value) return "-";
    if (value.length <= 52) return value;
    return `${value.slice(0, 24)}...${value.slice(-18)}`;
  };
  \<close>
\<close>

definition trimModelId :: "string nullable \<Rightarrow> string" where
  "trimModelId v =
     (if \<not> truthyStr v then ''-''
      else case v of
        Val s \<Rightarrow> if length s \<le> 52 then s else slice s 0 24 @ ''...'' @ sliceFrom s (- 18)
      | _ \<Rightarrow> ''-'')"

text \<open>
  \<^verbatim>\<open>
  export const fetchModelRuntimeStatus = async (
    llmBaseUrl: string
  ): Promise<ModelRuntimeStatus | null> => {
    if (!llmBaseUrl) return null;
    const statusUrl = `${llmBaseUrl}/internal/models/status`;
    const diagnosticsUrl = `${llmBaseUrl}/internal/diagnostics`;
    try {
      const controller = new AbortController();
      const timeoutId = setTimeout(() => controller.abort(), 3000);
      const response = await fetch(statusUrl, { signal: controller.signal });
      clearTimeout(timeoutId);
      if (response.ok) {
        return await response.json();
      }
      if (response.status !== 404) {
        throw new Error(`Status endpoint error (${response.status})`);
      }
    } catch {
      // fall through to diagnostics
    }
    try {
      const controller = new AbortController();
      const timeoutId = setTimeout(() => controller.abort(), 3000);
      const response = await fetch(diagnosticsUrl, { signal: controller.signal });
      clearTimeout(timeoutId);
      if (!response.ok) {
        throw new Error(`Diagnostics endpoint error (${response.status})`);
      }
      const diagnostics = await response.json();
      return {
        status: diagnostics.status,
        loaded: diagnostics.handler_initialized,
        model_id: diagnostics.loaded_model?.model_id,
        model_path: diagnostics.loaded_model?.model_path,
        model_type: diagnostics.loaded_model?.model_type,
        queue: diagnostics.queue || null,
        config: diagnostics.config || null
      };
    } catch {
      return null;
    }
  };
  \<close>
  The parsed bodies are untyped. A \<^verbatim>\<open>try\<close> block returns a value (\<open>Inr (Some v)\<close>),
  runs to its end without returning (\<open>Inr None\<close>) or raises (\<open>Inl e\<close>). An abort by the
  3000 ms timer is a rejected \<^verbatim>\<open>fetch\<close>.
\<close>

text \<open>\<^verbatim>\<open>o?.key\<close>\<close>

definition optChain :: "jsval \<Rightarrow> string \<Rightarrow> jsval" where
  "optChain v k = (if nullish v then JUndefined else getProp v k)"

text \<open>\<^verbatim>\<open>v || null\<close>\<close>

definition orNull :: "jsval \<Rightarrow> jsval" where
  "orNull v = (if truthy v then v else JNull)"

definition statusTry :: "jsval response \<Rightarrow> error + jsval option" where
  "statusTry r =
     (case r of
        NetworkFailure \<Rightarrow> Inl FetchRejected
      | Http st b \<Rightarrow>
          if resOk st then (case b of Malformed \<Rightarrow> Inl SyntaxError | Json v \<Rightarrow> Inr (Some v))
          else if st \<noteq> 404 then Inl (Thrown ''Status endpoint error'' st)
          else Inr None)"

text \<open>The object literal that the second \<^verbatim>\<open>try\<close> block returns.\<close>

definition reshapeDiagnostics :: "jsval \<Rightarrow> jsval" where
  "reshapeDiagnostics diagnostics =
     JObj
       [(''status'', getProp diagnostics ''status''),
        (''loaded'', getProp diagnostics ''handler_initialized''),
        (''model_id'', optChain (getProp diagnostics ''loaded_model'') ''model_id''),
        (''model_path'', optChain (getProp diagnostics ''loaded_model'') ''model_path''),
        (''model_type'', optChain (getProp diagnostics ''loaded_model'') ''model_type''),
        (''queue'', orNull (getProp diagnostics ''queue'')),
        (''config'', orNull (getProp diagnostics ''config''))]"

definition diagnosticsTry :: "jsval response \<Rightarrow> error + jsval" where
  "diagnosticsTry r =
     (case r of
        NetworkFailure \<Rightarrow> Inl FetchRejected
      | Http st b \<Rightarrow>
          if \<not> resOk st then Inl (Thrown ''Diagnostics endpoint error'' st)
          else (case b of
                  Malformed \<Rightarrow> Inl SyntaxError
                | Json diagnostics \<Rightarrow>
                    if nullish diagnostics then Inl TypeError
                    else Inr (reshapeDiagnostics diagnostics)))"

definition fetchModelRuntimeStatus ::
  "jsval net \<Rightarrow> string \<Rightarrow> string list \<Rightarrow> jsval \<times> string list" where
  "fetchModelRuntimeStatus net llmBaseUrl log =
     (if llmBaseUrl = [] then (JNull, log)
      else
        let statusUrl = llmBaseUrl @ ''/internal/models/status'';
            diagnosticsUrl = llmBaseUrl @ ''/internal/diagnostics'';
            (r1, log1) = fetch net statusUrl log
        in case statusTry r1 of
             Inr (Some v) \<Rightarrow> (v, log1)
           | _ \<Rightarrow>
               (let (r2, log2) = fetch net diagnosticsUrl log1
                in case diagnosticsTry r2 of
                     Inr v \<Rightarrow> (v, log2)
                   | Inl e \<Rightarrow> (JNull, log2)))"

section \<open>app.ts: posts\<close>

text \<open>
  The embedded payload \<^verbatim>\<open>fallbackPosts\<close>, member by member.
\<close>

definition fallbackPosts :: jsval where
  "fallbackPosts =
     JObj
       [(''generated_at'', JStr ''2025-12-28T00:00:00Z''),
        (''posts'', JArr
          [JObj
             [(''id'', JStr ''anthology-brief-001''),
              (''title'', JStr ''Anthology brief: what changed this week''),
              (''summary'', JStr ''Snapshot of new documents, system shifts, and active experiments.''),
              (''tags'', JArr [JStr ''anthology'', JStr ''summary'']),
              (''project'', JStr ''Anthology''),
              (''voice_id'', JStr ''kokoro_default''),
              (''published_at'', JStr ''2025-12-28'')],
           JObj
             [(''id'', JStr ''voice-notes-002''),
              (''title'', JStr ''Voice notes: RAG maintenance signals''),
              (''summary'', JStr ''Covers collection health, sync gaps, and query thresholds.''),
              (''tags'', JArr [JStr ''rag'', JStr ''maintenance'']),
              (''project'', JStr ''mlx-services''),
              (''voice_id'', JStr ''kokoro_default''),
              (''published_at'', JStr ''2025-12-27'')],
           JObj
             [(''id'', JStr ''generator-003''),
              (''title'', JStr ''Generator pipeline: markdown to posts.json''),
              (''summary'', JStr ''Outline of the static build flow and runtime overlays.''),
              (''tags'', JArr [JStr ''blog'', JStr ''pipeline'']),
              (''project'', JStr ''le-belle-epoch''),
              (''voice_id'', JStr ''kokoro_default''),
              (''published_at'', JStr ''2025-12-26'')],
           JObj
             [(''id'', JStr ''systems-004''),
              (''title'', JStr ''System table: mlx-services alignment''),
              (''summary'', JStr ''Status boards for llm, rag, audio, and mcp endpoints.''),
              (''tags'', JArr [JStr ''mlx'', JStr ''status'']),
              (''project'', JStr ''mlx-services''),
              (''voice_id'', JStr ''kokoro_default''),
              (''published_at'', JStr ''2025-12-25'')]])]"

text \<open>
  \<^verbatim>\<open>
  const loadPosts = async (): Promise<PostsPayload> => {
    try {
      const res = await fetch("/posts.json", { cache: "no-store" });
      if (!res.ok) return fallbackPosts;
      const data = (await res.json()) as PostsPayload;
      if (!data.posts || !Array.isArray(data.posts)) return fallbackPosts;
      return data;
    } catch {
      return fallbackPosts;
    }
  };
  \<close>
  The cast to \<^verbatim>\<open>PostsPayload\<close> checks nothing: \<open>data\<close> is whatever the body parsed to,
  and reading \<^verbatim>\<open>data.posts\<close> of \<^verbatim>\<open>null\<close> raises a TypeError.
\<close>

fun isArray :: "jsval \<Rightarrow> bool" where
  "isArray (JArr _) = True"
| "isArray _ = False"

definition loadPostsTry :: "jsval response \<Rightarrow> error + jsval" where
  "loadPostsTry r =
     (case r of
        NetworkFailure \<Rightarrow> Inl FetchRejected
      | Http st b \<Rightarrow>
          if \<not> resOk st then Inr fallbackPosts
          else (case b of
                  Malformed \<Rightarrow> Inl SyntaxError
                | Json d \<Rightarrow>
                    if nullish d then Inl TypeError
                    else if \<not> truthy (getProp d ''posts'') \<or> \<not> isArray (getProp d ''posts'')
                    then Inr fallbackPosts
                    else Inr d))"

definition loadPosts :: "jsval net \<Rightarrow> string list \<Rightarrow> jsval \<times> string list" where
  "loadPosts net log =
     (let (r, log1) = fetch net ''/posts.json'' log
      in case loadPostsTry r of
           Inr payload \<Rightarrow> (payload, log1)
         | Inl e \<Rightarrow> (fallbackPosts, log1))"

text \<open>
  \<^verbatim>\<open>
  const renderPosts = (posts: Post[]) => {
    if (!postList) return;
    postList.innerHTML = "";
    posts.forEach((post) => {
      const card = document.createElement("article");
      card.className = "post-card";
      const tags = post.tags.length ? post.tags.join(" ") : "untagged";
      card.innerHTML = `
        <div class="post-meta">
          <span>${post.project || "Anthology"}</span>
          <span>${formatDate(post.published_at)}</span>
          <span>${tags}</span>
        </div>
        <h3>${post.title}</h3>
        <p class="muted">${post.summary}</p>
        <div class="post-meta">voice: ${post.voice_id || "kokoro_default"}</div>
      `;
      postList.appendChild(card);
    });
  };
  \<close>
  The container \<^verbatim>\<open>#postList\<close> is absent (\<open>None\<close>) or holds the list of its cards, each
  card being the markup assigned to its \<^verbatim>\<open>innerHTML\<close>. The posts are parsed JSON:
  a post that is \<^verbatim>\<open>null\<close>, or whose \<^verbatim>\<open>tags\<close> is missing, or is a non-empty
  string (which has a length and no \<^verbatim>\<open>join\<close>), raises a TypeError, and the cards
  appended before it stay.
\<close>

text \<open>\<^verbatim>\<open>a || b\<close>\<close>

definition orElse :: "jsval \<Rightarrow> jsval \<Rightarrow> jsval" where
  "orElse a b = (if truthy a then a else b)"

text \<open>\<^verbatim>\<open>post.tags.length ? post.tags.join(" ") : "untagged"\<close>\<close>

fun tagsText :: "jsval \<Rightarrow> error + string" where
  "tagsText JUndefined = Inl TypeError"
| "tagsText JNull = Inl TypeError"
| "tagsText (JArr xs) =
     (if xs \<noteq> [] then Inr (joinWith '' '' (map (\<lambda>x. if nullish x then [] else toString x) xs))
      else Inr ''untagged'')"
| "tagsText (JStr s) = (if s \<noteq> [] then Inl TypeError else Inr ''untagged'')"
| "tagsText (JObj ms) =
     (if truthy (getProp (JObj ms) ''length'') then Inl TypeError else Inr ''untagged'')"
| "tagsText v = Inr ''untagged''"

definition cardMarkup ::
  "string \<Rightarrow> string \<Rightarrow> string \<Rightarrow> string \<Rightarrow> string \<Rightarrow> string \<Rightarrow> string" where
  \<open>cardMarkup project published tags title summary voice =
     ''\<newline>      <div class="post-meta">'' @
     ''\<newline>        <span>'' @ project @ ''</span>'' @
     ''\<newline>        <span>'' @ published @ ''</span>'' @
     ''\<newline>        <span>'' @ tags @ ''</span>'' @
     ''\<newline>      </div>'' @
     ''\<newline>      <h3>'' @ title @ ''</h3>'' @
     ''\<newline>      <p class="muted">'' @ summary @ ''</p>'' @
     ''\<newline>      <div class="post-meta">voice: '' @ voice @ ''</div>'' @
     ''\<newline>    ''\<close>

definition postCard :: "host \<Rightarrow> jsval \<Rightarrow> error + string" where
  "postCard host post =
     (if nullish post then Inl TypeError
      else case tagsText (getProp post ''tags'') of
        Inl e \<Rightarrow> Inl e
      | Inr tags \<Rightarrow>
          Inr (cardMarkup
                 (toString (orElse (getProp post ''project'') (JStr ''Anthology'')))
                 (toString (formatDate host (getProp post ''published_at'')))
                 tags
                 (toString (getProp post ''title''))
                 (toString (getProp post ''summary''))
                 (toString (orElse (getProp post ''voice_id'') (JStr ''kokoro_default'')))))"

fun appendPosts :: "host \<Rightarrow> jsval list \<Rightarrow> string list \<Rightarrow> string list \<times> error option" where
  "appendPosts host [] cards = (cards, None)"
| "appendPosts host (post # rest) cards =
     (case postCard host post of
        Inl e \<Rightarrow> (cards, Some e)
      | Inr markup \<Rightarrow> appendPosts host rest (cards @ [markup]))"

definition renderPosts ::
  "host \<Rightarrow> string list option \<Rightarrow> jsval \<Rightarrow> string list option \<times> error option" where
  "renderPosts host postList posts =
     (case postList of
        None \<Rightarrow> (None, None)
      | Some old \<Rightarrow>
          (case posts of
             JArr ps \<Rightarrow> (let (cards, e) = appendPosts host ps [] in (Some cards, e))
           | _ \<Rightarrow> (Some [], Some TypeError)))"

section \<open>app.ts: retrieval statistics\<close>

text \<open>
  \<^verbatim>\<open>
  const extractRagStats = (
    payload?: { ok?: boolean; data?: Record<string, unknown> | null } | Record<string, unknown> | null
  ) => {
    if (!payload) return null;
    const payloadRecord = payload as { ok?: boolean; data?: Record<string, unknown> | null };
    const data =
      typeof payloadRecord.ok === "boolean"
        ? payloadRecord.ok
          ? payloadRecord.data
          : null
        : (payload as Record<string, unknown>);
    if (!data) return null;
    const count =
      (data.num_documents as number | undefined) ??
      (data.documents as number | undefined) ??
      (data.count as number | undefined);
    const updated =
      (data.updated_at as string | undefined) ??
      (data.generated_at as string | undefined) ??
      (data.created_at as string | undefined);
    return {
      count: count != null ? String(count) : "-",
      updated: formatTimestamp(updated)
    };
  };
  \<close>
\<close>

record ragStats =
  count :: string
  updated :: jsval

fun isBoolean :: "jsval \<Rightarrow> bool" where
  "isBoolean (JBool _) = True"
| "isBoolean _ = False"

definition extractRagStats :: "host \<Rightarrow> jsval \<Rightarrow> ragStats option" where
  "extractRagStats host payload =
     (if \<not> truthy payload then None
      else
        let d = (if isBoolean (getProp payload ''ok'')
                 then (if truthy (getProp payload ''ok'') then getProp payload ''data'' else JNull)
                 else payload)
        in if \<not> truthy d then None
           else
             let c = nullishOr (nullishOr (getProp d ''num_documents'') (getProp d ''documents''))
                       (getProp d ''count'');
                 u = nullishOr (nullishOr (getProp d ''updated_at'') (getProp d ''generated_at''))
                       (getProp d ''created_at'')
             in Some \<lparr>count = (if \<not> nullish c then toString c else ''-''),
                      updated = formatTimestamp host u\<rparr>)"

section \<open>app.ts: the status table\<close>

text \<open>
  The three base addresses of the page configuration (each has a default, so none is
  empty when the page reads them from its metadata).
\<close>

record config =
  ragBaseUrl :: string
  llmBaseUrl :: string
  audioBaseUrl :: string

text \<open>
  The declared types of the aggregate reply. A member declared \<^verbatim>\<open>unknown\<close>, or a
  union of a number and a string, stays a \<open>jsval\<close>; the reply as a whole may be the
  JSON value \<^verbatim>\<open>null\<close> (\<open>None\<close>).
  \<^verbatim>\<open>
  type EcosystemServicePayload = {
    ok?: boolean; base_url?: string; model_id?: string | null; model_type?: string | null;
    loaded?: boolean; embedding_model?: string | null;
    stats?: { ok?: boolean; data?: Record<string, unknown> | null } | null;
  };
  type EcosystemStatus = {
    status?: string; generated_at?: number | string; collection?: string;
    services?: { llm?: EcosystemServicePayload | null; rag?: ...; audio?: ...; vlm?: ...; mcp?: ... };
  };
  type SystemRow = {
    resource: string; type: string; status: "ok" | "down" | "unknown";
    docs: string; updated: string; endpoint: string;
  };
  \<close>
  The \<^verbatim>\<open>updated\<close> member of a row is what \<open>formatTimestamp\<close> returned.
\<close>

record EcosystemServicePayload =
  ok :: "bool nullable"
  base_url :: "string nullable"
  model_id :: "string nullable"
  model_type :: "string nullable"
  loaded :: "bool nullable"
  embedding_model :: "string nullable"
  stats :: jsval

record EcosystemServices =
  llm :: "EcosystemServicePayload nullable"
  rag :: "EcosystemServicePayload nullable"
  audio :: "EcosystemServicePayload nullable"
  vlm :: "EcosystemServicePayload nullable"
  mcp :: "EcosystemServicePayload nullable"

record EcosystemStatus =
  status :: "string nullable"
  generated_at :: jsval
  collection :: "string nullable"
  services :: "EcosystemServices nullable"

record SystemRow =
  resource :: string
  rowType :: string
  status :: string
  docs :: string
  updated :: jsval
  endpoint :: string

text \<open>
  \<^verbatim>\<open>encodeURIComponent\<close>: letters, digits and \<^verbatim>\<open>- _ . ! ~ * ' ( )\<close> stay, every
  other character becomes the percent-encoded bytes of its UTF-8 form.
\<close>

definition unreserved :: "char \<Rightarrow> bool" where
  "unreserved c =
     (let n = (of_char c :: nat)
      in (65 \<le> n \<and> n \<le> 90) \<or> (97 \<le> n \<and> n \<le> 122) \<or> (48 \<le> n \<and> n \<le> 57) \<or>
         n \<in> {45, 95, 46, 33, 126, 42, 39, 40, 41})"

definition percent :: "nat \<Rightarrow> string" where
  "percent b = [CHR ''%'', ''0123456789ABCDEF'' ! (b div 16), ''0123456789ABCDEF'' ! (b mod 16)]"

definition encodeChar :: "char \<Rightarrow> string" where
  "encodeChar c =
     (let n = (of_char c :: nat)
      in if unreserved c then [c]
         else if n < 128 then percent n
         else percent (192 + n div 64) @ percent (128 + n mod 64))"

definition encodeURIComponent :: "string \<Rightarrow> string" where
  "encodeURIComponent s = concat (map encodeChar s)"

text \<open>\<^verbatim>\<open>a || b\<close> on strings, and \<^verbatim>\<open>o || null\<close> on an object reference.\<close>

fun strOr :: "string nullable \<Rightarrow> string \<Rightarrow> string" where
  "strOr (Val s) d = (if s \<noteq> [] then s else d)"
| "strOr _ d = d"

fun orNullRef :: "'a nullable \<Rightarrow> 'a nullable" where
  "orNullRef (Val x) = Val x"
| "orNullRef _ = Null"

fun nullableToJs :: "jsval nullable \<Rightarrow> jsval" where
  "nullableToJs Undefined = JUndefined"
| "nullableToJs Null = JNull"
| "nullableToJs (Val v) = v"

text \<open>
  \<^verbatim>\<open>
  const loadSystemRows = async (): Promise<SystemRow[]> => {
    const rows: SystemRow[] = [];
    let ecosystem: EcosystemStatus | null = null;

    if (config.llmBaseUrl) {
      const ecosystemResponse = await fetchJson(
        `${config.llmBaseUrl}/internal/ecosystem/status?collection=anthology`
      );
      if (ecosystemResponse.ok && ecosystemResponse.data) {
        ecosystem = ecosystemResponse.data as EcosystemStatus;
      }
    }
  \<close>
\<close>

definition loadEcosystem ::
  "config \<Rightarrow> EcosystemStatus option net \<Rightarrow> string list \<Rightarrow> EcosystemStatus option \<times> string list" where
  "loadEcosystem cfg net log =
     (if llmBaseUrl cfg \<noteq> [] then
        let (ecosystemResponse, log1) =
              fetchJson net (llmBaseUrl cfg @ ''/internal/ecosystem/status?collection=anthology'') log
        in (if fetched.ok ecosystemResponse
            then (case fetched.data ecosystemResponse of Val (Some e) \<Rightarrow> Some e | _ \<Rightarrow> None)
            else None, log1)
      else (None, log))"

text \<open>
  \<^verbatim>\<open>
    if (ecosystem?.services) {
      const updated = formatTimestamp(ecosystem.generated_at);
      const addServiceRow = (label, service, fallbackBase, docs) => {
        rows.push({
          resource: label,
          type: "service",
          status: service ? (service.ok ? "ok" : "down") : "unknown",
          docs,
          updated,
          endpoint: service?.base_url || fallbackBase || "-"
        });
      };
      const llmService = ecosystem.services.llm || null;
      const llmDocs = llmService
        ? llmService.model_id
          ? trimModelId(llmService.model_id)
          : llmService.loaded
          ? "loaded"
          : "unloaded"
        : "-";
      addServiceRow("mlx-llm", llmService, config.llmBaseUrl, llmDocs);
      const ragService = ecosystem.services.rag || null;
      const ragDocs = ragService?.embedding_model
        ? trimModelId(ragService.embedding_model)
        : "-";
      addServiceRow("mlx-rag", ragService, config.ragBaseUrl, ragDocs);
      addServiceRow("mlx-audio", ecosystem.services.audio || null, config.audioBaseUrl, "-");
      if (ecosystem.services.vlm) {
        addServiceRow("mlx-vlm", ecosystem.services.vlm, "-", "-");
      }
      if (ecosystem.services.mcp) {
        addServiceRow("mlx-mcp", ecosystem.services.mcp, "-", "-");
      }
    }
  \<close>
  \<open>addServiceRow\<close> gives the row that the closure pushes.
\<close>

definition ecosystemServices :: "EcosystemStatus option \<Rightarrow> EcosystemServices option" where
  "ecosystemServices ecosystem =
     (case ecosystem of
        None \<Rightarrow> None
      | Some e \<Rightarrow> (case services e of Val s \<Rightarrow> Some s | _ \<Rightarrow> None))"

definition addServiceRow ::
  "jsval \<Rightarrow> string \<Rightarrow> EcosystemServicePayload nullable \<Rightarrow> string \<Rightarrow> string \<Rightarrow> SystemRow" where
  "addServiceRow upd label service fallbackBase dcs =
     \<lparr>resource = label,
      rowType = ''service'',
      status = (case service of
                  Val s \<Rightarrow> if truthyBool (ok s) then ''ok'' else ''down''
                | _ \<Rightarrow> ''unknown''),
      docs = dcs,
      updated = upd,
      endpoint = strOr (Val (strOr (case service of Val s \<Rightarrow> base_url s | _ \<Rightarrow> Undefined)
                               fallbackBase)) ''-''\<rparr>"

definition llmDocs :: "EcosystemServicePayload nullable \<Rightarrow> string" where
  "llmDocs llmService =
     (case llmService of
        Val s \<Rightarrow>
          if truthyStr (model_id s) then trimModelId (model_id s)
          else if truthyBool (loaded s) then ''loaded''
          else ''unloaded''
      | _ \<Rightarrow> ''-'')"

definition ragDocs :: "EcosystemServicePayload nullable \<Rightarrow> string" where
  "ragDocs ragService =
     (case ragService of
        Val s \<Rightarrow> if truthyStr (embedding_model s) then trimModelId (embedding_model s) else ''-''
      | _ \<Rightarrow> ''-'')"

definition aggregateRows :: "host \<Rightarrow> config \<Rightarrow> EcosystemStatus \<Rightarrow> EcosystemServices \<Rightarrow> SystemRow list" where
  "aggregateRows host cfg e svcs =
     (let upd = formatTimestamp host (generated_at e);
          llmService = orNullRef (llm svcs);
          ragService = orNullRef (rag svcs)
      in [addServiceRow upd ''mlx-llm'' llmService (llmBaseUrl cfg) (llmDocs llmService),
          addServiceRow upd ''mlx-rag'' ragService (ragBaseUrl cfg) (ragDocs ragService),
          addServiceRow upd ''mlx-audio'' (orNullRef (audio svcs)) (audioBaseUrl cfg) ''-''] @
         (if truthyObj (vlm svcs) then [addServiceRow upd ''mlx-vlm'' (vlm svcs) ''-'' ''-''] else []) @
         (if truthyObj (mcp svcs) then [addServiceRow upd ''mlx-mcp'' (mcp svcs) ''-'' ''-''] else []))"

text \<open>
  \<^verbatim>\<open>
    } else {
      const services = [
        { resource: "mlx-llm", type: "service", base: config.llmBaseUrl, health: "/health" },
        { resource: "mlx-rag", type: "service", base: config.ragBaseUrl, health: "/health" },
        { resource: "mlx-audio", type: "service", base: config.audioBaseUrl, health: "/health" }
      ];
      for (const service of services) {
        const health = await fetchJson(`${service.base}${service.health}`);
        rows.push({
          resource: service.resource,
          type: service.type,
          status: health.ok ? "ok" : "down",
          docs: "-",
          updated: "-",
          endpoint: service.base
        });
      }
    }
  \<close>
  An entry of \<^verbatim>\<open>services\<close> is the tuple of its four members.
\<close>

definition healthServices :: "config \<Rightarrow> (string \<times> string \<times> string \<times> string) list" where
  "healthServices cfg =
     [(''mlx-llm'', ''service'', llmBaseUrl cfg, ''/health''),
      (''mlx-rag'', ''service'', ragBaseUrl cfg, ''/health''),
      (''mlx-audio'', ''service'', audioBaseUrl cfg, ''/health'')]"

fun probeServices ::
  "jsval net \<Rightarrow> (string \<times> string \<times> string \<times> string) list \<Rightarrow> SystemRow list \<Rightarrow> string list
     \<Rightarrow> SystemRow list \<times> string list" where
  "probeServices net [] rows log = (rows, log)"
| "probeServices net ((res, ty, base, health) # rest) rows log =
     (let (h, log1) = fetchJson net (base @ health) log
      in probeServices net rest
           (rows @ [\<lparr>resource = res,
                      rowType = ty,
                      status = (if fetched.ok h then ''ok'' else ''down''),
                      docs = ''-'',
                      updated = JStr ''-'',
                      endpoint = base\<rparr>])
           log1)"

text \<open>
  \<^verbatim>\<open>
    const collections = ["anthology", "blog", "projects"];
    for (const collection of collections) {
      let statsPayload = null;
      if (ecosystem?.services?.rag?.stats && ecosystem.collection === collection) {
        statsPayload = ecosystem.services.rag.stats;
      } else {
        const statsResponse = await fetchJson(
          `${config.ragBaseUrl}/rag_stats?collection=${encodeURIComponent(collection)}`
        );
        statsPayload = statsResponse.ok ? { ok: true, data: statsResponse.data } : null;
      }
      const parsedStats = extractRagStats(statsPayload);
      const count = parsedStats?.count ?? "-";
      const updated = parsedStats?.updated ?? "-";
      rows.push({
        resource: `rag:${collection}`,
        type: "collection",
        status: parsedStats ? "ok" : "down",
        docs: count,
        updated,
        endpoint: `${config.ragBaseUrl}/rag_stats`
      });
    }
    return rows;
  };
  \<close>
\<close>

text \<open>\<^verbatim>\<open>ecosystem?.services?.rag?.stats\<close>\<close>

definition ecosystemRagStats :: "EcosystemStatus option \<Rightarrow> jsval" where
  "ecosystemRagStats ecosystem =
     (case ecosystemServices ecosystem of
        None \<Rightarrow> JUndefined
      | Some svcs \<Rightarrow> (case rag svcs of Val r \<Rightarrow> stats r | _ \<Rightarrow> JUndefined))"

definition collectionRow :: "config \<Rightarrow> string \<Rightarrow> ragStats option \<Rightarrow> SystemRow" where
  "collectionRow cfg c parsedStats =
     \<lparr>resource = ''rag:'' @ c,
      rowType = ''collection'',
      status = (if parsedStats \<noteq> None then ''ok'' else ''down''),
      docs = (case parsedStats of Some p \<Rightarrow> count p | None \<Rightarrow> ''-''),
      updated = (case parsedStats of
                   Some p \<Rightarrow> nullishOr (ragStats.updated p) (JStr ''-'')
                 | None \<Rightarrow> JStr ''-''),
      endpoint = ragBaseUrl cfg @ ''/rag_stats''\<rparr>"

fun probeCollections ::
  "host \<Rightarrow> config \<Rightarrow> EcosystemStatus option \<Rightarrow> jsval net \<Rightarrow> string list \<Rightarrow> SystemRow list
     \<Rightarrow> string list \<Rightarrow> SystemRow list \<times> string list" where
  "probeCollections host cfg ecosystem net [] rows log = (rows, log)"
| "probeCollections host cfg ecosystem net (c # rest) rows log =
     (let (statsPayload, log1) =
            (if truthy (ecosystemRagStats ecosystem) \<and>
                (case ecosystem of Some e \<Rightarrow> collection e = Val c | None \<Rightarrow> False)
             then (ecosystemRagStats ecosystem, log)
             else
               let (statsResponse, log') =
                     fetchJson net (ragBaseUrl cfg @ ''/rag_stats?collection='' @ encodeURIComponent c) log
               in (if fetched.ok statsResponse
                   then JObj [(''ok'', JBool True), (''data'', nullableToJs (fetched.data statsResponse))]
                   else JNull, log'))
      in probeCollections host cfg ecosystem net rest
           (rows @ [collectionRow cfg c (extractRagStats host statsPayload)]) log1)"

definition loadSystemRows ::
  "host \<Rightarrow> config \<Rightarrow> EcosystemStatus option net \<Rightarrow> jsval net \<Rightarrow> string list
     \<Rightarrow> SystemRow list \<times> string list" where
  "loadSystemRows host cfg netE net log =
     (let (ecosystem, log1) = loadEcosystem cfg netE log;
          (rows, log2) =
            (case ecosystem of
               None \<Rightarrow> probeServices net (healthServices cfg) [] log1
             | Some e \<Rightarrow>
                 (case services e of
                    Val svcs \<Rightarrow> (aggregateRows host cfg e svcs, log1)
                  | _ \<Rightarrow> probeServices net (healthServices cfg) [] log1))
      in probeCollections host cfg ecosystem net [''anthology'', ''blog'', ''projects''] rows log2)"

section \<open>Vocabulary of the specification\<close>

text \<open>
  A successful reply: a status from 200 to 299 with a body that is JSON. Everything
  else (a network failure, an abort, any other status, a malformed body) is a failure
  of the request and gives \<open>None\<close>.
\<close>

definition jsonReply :: "'a response \<Rightarrow> 'a option" where
  "jsonReply r =
     (case r of
        NetworkFailure \<Rightarrow> None
      | Http st b \<Rightarrow> (case b of Malformed \<Rightarrow> None | Json v \<Rightarrow> if resOk st then Some v else None))"

text \<open>
  The diagnostics attempt succeeds with a payload that can be reshaped: a successful
  reply whose body is not the JSON value \<^verbatim>\<open>null\<close>.
\<close>

definition diagnosticsPayload :: "jsval response \<Rightarrow> jsval option" where
  "diagnosticsPayload r =
     (case jsonReply r of
        None \<Rightarrow> None
      | Some d \<Rightarrow> if nullish d then None else Some d)"

text \<open>
  The first present member among candidate names, in their order of priority. A member
  is present when the record has it with a value other than \<^verbatim>\<open>null\<close>.
\<close>

fun firstPresent :: "(string \<times> jsval) list \<Rightarrow> string list \<Rightarrow> jsval option" where
  "firstPresent ms [] = None"
| "firstPresent ms (k # ks) =
     (case map_of ms k of
        None \<Rightarrow> firstPresent ms ks
      | Some v \<Rightarrow> if nullish v then firstPresent ms ks else Some v)"

definition statsOf :: "host \<Rightarrow> (string \<times> jsval) list \<Rightarrow> ragStats" where
  "statsOf host ms =
     \<lparr>count = (case firstPresent ms [''num_documents'', ''documents'', ''count''] of
                 Some v \<Rightarrow> toString v
               | None \<Rightarrow> ''-''),
      updated = (case firstPresent ms [''updated_at'', ''generated_at'', ''created_at''] of
                   Some v \<Rightarrow> formatTimestamp host v
                 | None \<Rightarrow> JStr ''-'')\<rparr>"

text \<open>
  The aggregate endpoint is available when the page has a base address for it and the
  reply is successful, is not \<^verbatim>\<open>null\<close> and has a \<^verbatim>\<open>services\<close> member.
\<close>

definition ecosystemUrl :: "config \<Rightarrow> string" where
  "ecosystemUrl cfg = llmBaseUrl cfg @ ''/internal/ecosystem/status?collection=anthology''"

definition aggregateServices ::
  "config \<Rightarrow> EcosystemStatus option response \<Rightarrow> (EcosystemStatus \<times> EcosystemServices) option" where
  "aggregateServices cfg r =
     (if llmBaseUrl cfg = [] then None
      else case jsonReply r of
        Some (Some e) \<Rightarrow> (case services e of Val s \<Rightarrow> Some (e, s) | _ \<Rightarrow> None)
      | _ \<Rightarrow> None)"

text \<open>
  The request for the posts fails: the request itself fails, or the body has no
  \<^verbatim>\<open>posts\<close> member that is an array.
\<close>

definition postsUnavailable :: "jsval response \<Rightarrow> bool" where
  "postsUnavailable r =
     (case jsonReply r of None \<Rightarrow> True | Some d \<Rightarrow> \<not> isArray (getProp d ''posts''))"

fun arrayElements :: "jsval \<Rightarrow> jsval list" where
  "arrayElements (JArr xs) = xs"
| "arrayElements _ = []"

subsection \<open>Concrete inputs\<close>

definition exampleConfig :: config where
  "exampleConfig =
     \<lparr>ragBaseUrl = ''http://127.0.0.1:8011'',
      llmBaseUrl = ''http://127.0.0.1:8080'',
      audioBaseUrl = ''http://127.0.0.1:7001''\<rparr>"

text \<open>A host whose \<^verbatim>\<open>Date.parse\<close> knows the date-only form and nothing else.\<close>

definition noHost :: host where
  "noHost s = None"

text \<open>Networks on which every request fails, or is answered 200 with a body that is not JSON.\<close>

definition deadNet :: "jsval net" where
  "deadNet n url = NetworkFailure"

definition deadAggregate :: "EcosystemStatus option net" where
  "deadAggregate n url = NetworkFailure"

definition garbledNet :: "jsval net" where
  "garbledNet n url = Http 200 Malformed"

definition errorNet :: "jsval net" where
  "errorNet n url = Http 500 (Json (JStr ''internal error''))"

definition echoNet :: "jsval net" where
  "echoNet n url = Http 200 (Json (JStr url))"

text \<open>The diagnostics payload and the canonical status of the specification's example.\<close>

definition exampleDiagnostics :: jsval where
  "exampleDiagnostics =
     JObj [(''status'', JStr ''ok''), (''handler_initialized'', JBool True),
           (''loaded_model'', JObj [(''model_id'', JStr ''m1''), (''model_type'', JStr ''chat'')]),
           (''queue'', JNull), (''config'', JNull)]"

definition exampleStatus :: jsval where
  "exampleStatus =
     JObj [(''status'', JStr ''ok''), (''loaded'', JBool True), (''model_id'', JStr ''m1''),
           (''model_type'', JStr ''chat''), (''queue'', JNull), (''config'', JNull)]"

text \<open>An inference service without the status endpoint, whose diagnostics are the example.\<close>

definition diagnosticsOnlyNet :: "jsval net" where
  "diagnosticsOnlyNet n url =
     (if url = ''http://127.0.0.1:8080/internal/diagnostics'' then Http 200 (Json exampleDiagnostics)
      else Http 404 Malformed)"

definition statusNet :: "jsval net" where
  "statusNet n url =
     (if url = ''http://127.0.0.1:8080/internal/models/status'' then Http 200 (Json exampleStatus)
      else Http 404 Malformed)"

text \<open>The statistics record of the specification's example.\<close>

definition exampleStats :: "(string \<times> jsval) list" where
  "exampleStats = [(''documents'', JNum 42), (''created_at'', JStr ''2025-01-01'')]"

text \<open>
  An aggregate reply in which the inference service reports \<^verbatim>\<open>ok: false\<close> and the
  given model identifier, and nothing else.
\<close>

definition llmDownService :: "string nullable \<Rightarrow> EcosystemServicePayload" where
  "llmDownService mid =
     \<lparr>ok = Val False, base_url = Undefined, model_id = mid, model_type = Undefined,
      loaded = Undefined, embedding_model = Undefined, stats = JUndefined\<rparr>"

definition llmDownServices :: "string nullable \<Rightarrow> EcosystemServices" where
  "llmDownServices mid =
     \<lparr>llm = Val (llmDownService mid), rag = Undefined, audio = Undefined,
      vlm = Undefined, mcp = Undefined\<rparr>"

definition llmDownStatus :: "string nullable \<Rightarrow> EcosystemStatus" where
  "llmDownStatus mid =
     \<lparr>EcosystemStatus.status = Undefined, generated_at = JUndefined, collection = Undefined,
      services = Val (llmDownServices mid)\<rparr>"

definition llmDownNet :: "string nullable \<Rightarrow> EcosystemStatus option net" where
  "llmDownNet mid n url = Http 200 (Json (Some (llmDownStatus mid)))"

subsection \<open>Auxiliary functions of the proofs\<close>

text \<open>The result of the probe as a function of the outcome of its request.\<close>

definition fetchJsonResult :: "'a response \<Rightarrow> 'a fetched" where
  "fetchJsonResult r =
     (case fetchJsonTry r of
        Inr res \<Rightarrow> res
      | Inl e \<Rightarrow> \<lparr>fetched.ok = False, fetched.data = Undefined\<rparr>)"

text \<open>The service rows and the requests behind them, after the aggregate probe.\<close>

definition serviceRowsOf ::
  "host \<Rightarrow> config \<Rightarrow> EcosystemStatus option \<Rightarrow> jsval net \<Rightarrow> string list
     \<Rightarrow> SystemRow list \<times> string list" where
  "serviceRowsOf host cfg ecosystem net log1 =
     (case ecosystem of
        None \<Rightarrow> probeServices net (healthServices cfg) [] log1
      | Some e \<Rightarrow>
          (case services e of
             Val svcs \<Rightarrow> (aggregateRows host cfg e svcs, log1)
           | _ \<Rightarrow> probeServices net (healthServices cfg) [] log1))"

section \<open>Properties of the model identifier display\<close>

lemma slice_prefix: "0 \<le> n \<Longrightarrow> slice s 0 n = take (nat n) s"
  by (auto simp: slice_def Let_def min_def)

lemma sliceFrom_suffix:
  "0 < k \<Longrightarrow> sliceFrom s (- k) = drop (length s - nat k) s"
proof -
  assume k: "0 < k"
  have "nat (max (int (length s) - k) 0) = length s - nat k"
    using k by (simp add: max_def) linarith
  then show ?thesis
    using k by (simp add: sliceFrom_def slice_def Let_def)
qed

lemma trimModelId_long:
  "52 < length s \<Longrightarrow> trimModelId (Val s) = take 24 s @ ''...'' @ drop (length s - 18) s"
  using slice_prefix [of 24 s] sliceFrom_suffix [of 18 s]
  by (auto simp: trimModelId_def)

lemma trimModelId_short:
  "s \<noteq> [] \<Longrightarrow> length s \<le> 52 \<Longrightarrow> trimModelId (Val s) = s"
  by (simp add: trimModelId_def)

lemma trimModelId_long_length: "52 < length s \<Longrightarrow> length (trimModelId (Val s)) = 45"
  by (simp add: trimModelId_long)

text \<open>
  C6, as stated, fails on the empty identifier: its length is at most 52, and the guard
  \<^verbatim>\<open>if (!value) return "-"\<close> turns it into the placeholder.
\<close>

theorem trimModelId_identity_counterexample:
  "length ('''' :: string) \<le> 52 \<and> trimModelId (Val '''') = ''-'' \<and>
   trimModelId (Val '''') \<noteq> ''''"
  by (simp add: trimModelId_def)

text \<open>
  C6 (amended): a non-empty model identifier of length at most 52 is returned unchanged;
  an identifier longer than 52 characters becomes its first 24 characters, then
  \<^verbatim>\<open>...\<close>, then its last 18 characters, a string of length 45.
\<close>

theorem trimModelId_abbreviation:
  "(s \<noteq> [] \<and> length s \<le> 52 \<longrightarrow> trimModelId (Val s) = s) \<and>
   (52 < length s \<longrightarrow>
      trimModelId (Val s) = take 24 s @ ''...'' @ drop (length s - 18) s \<and>
      length (trimModelId (Val s)) = 45)"
  by (simp add: trimModelId_short trimModelId_long)

theorem trimModelId_abbreviation_witness:
  "trimModelId (Val ''mlx-community/Qwen2.5-7B-Instruct-4bit'') =
     ''mlx-community/Qwen2.5-7B-Instruct-4bit'' \<and>
   trimModelId (Val ''mlx-community/DeepSeek-R1-Distill-Qwen-32B-Instruct-4bit-mlx'') =
     ''mlx-community/DeepSeek-R...-Instruct-4bit-mlx'' \<and>
   length (trimModelId (Val ''mlx-community/DeepSeek-R1-Distill-Qwen-32B-Instruct-4bit-mlx'')) = 45"
  using trimModelId_abbreviation [of "''mlx-community/Qwen2.5-7B-Instruct-4bit''"]
    trimModelId_abbreviation [of "''mlx-community/DeepSeek-R1-Distill-Qwen-32B-Instruct-4bit-mlx''"]
  by simp

text \<open>
  C10: for every input (\<^verbatim>\<open>undefined\<close>, \<^verbatim>\<open>null\<close> or a string) the result is a
  non-empty string of length at most 52, and \<^verbatim>\<open>undefined\<close>, \<^verbatim>\<open>null\<close> and the
  empty string give the placeholder \<^verbatim>\<open>-\<close>; so the empty string is not returned
  unchanged although its length is at most 52.
\<close>

theorem trimModelId_bounded:
  "trimModelId v \<noteq> [] \<and> length (trimModelId v) \<le> 52 \<and>
   trimModelId Undefined = ''-'' \<and> trimModelId Null = ''-'' \<and>
   trimModelId (Val '''') = ''-'' \<and> trimModelId (Val '''') \<noteq> ''''"
proof -
  have base: "trimModelId Undefined = ''-''" "trimModelId Null = ''-''"
    "trimModelId (Val '''') = ''-''"
    by (simp_all add: trimModelId_def)
  have "trimModelId v \<noteq> [] \<and> length (trimModelId v) \<le> 52"
  proof (cases v)
    case (Val s)
    show ?thesis
    proof (cases "52 < length s")
      case True
      then show ?thesis using Val by (simp add: trimModelId_long)
    next
      case False
      then show ?thesis using Val by (cases "s = []") (simp_all add: trimModelId_def)
    qed
  qed (simp_all add: base)
  then show ?thesis by (simp add: base)
qed

section \<open>Properties of the JSON probe\<close>

lemma fetchJson_eq: "fetchJson net url log = (fetchJsonResult (net (length log) url), log @ [url])"
  by (simp add: fetchJson_def fetch_def fetchJsonResult_def split: sum.splits)

text \<open>
  C1, as stated, fails on a malformed body: the probe of the page catches the rejection of
  \<^verbatim>\<open>res.json()\<close> on the spot and answers \<^verbatim>\<open>{ok: true, data: null}\<close>, not
  \<^verbatim>\<open>{ok: false}\<close>.
\<close>

theorem fetchJson_malformed_counterexample:
  "fetchJson garbledNet ''http://127.0.0.1:8011/health'' [] =
     (\<lparr>fetched.ok = True, fetched.data = Null\<rparr>, [''http://127.0.0.1:8011/health'']) \<and>
   fst (fetchJson garbledNet ''http://127.0.0.1:8011/health'' []) \<noteq>
     \<lparr>fetched.ok = False, fetched.data = Undefined\<rparr>"
  by (simp add: fetchJson_def fetch_def fetchJsonTry_def resOk_def garbledNet_def)

text \<open>
  C1 (amended): the probe never raises and makes exactly one request. A network failure
  and a response outside 200..299 give \<^verbatim>\<open>{ok: false}\<close>; a response in 200..299 with a
  JSON body gives \<^verbatim>\<open>{ok: true}\<close> with that body as data; a response in 200..299 whose
  body is not JSON gives \<^verbatim>\<open>{ok: true, data: null}\<close> in the page's probe and
  \<^verbatim>\<open>{ok: false}\<close> in the legacy page's probe.
\<close>

theorem fetchJson_probe:
  "(net (length log) url = NetworkFailure \<longrightarrow>
      fetchJson net url log = (\<lparr>fetched.ok = False, fetched.data = Undefined\<rparr>, log @ [url])) \<and>
   (net (length log) url = Http st b \<and> \<not> resOk st \<longrightarrow>
      fetchJson net url log = (\<lparr>fetched.ok = False, fetched.data = Undefined\<rparr>, log @ [url])) \<and>
   (net (length log) url = Http st Malformed \<and> resOk st \<longrightarrow>
      fetchJson net url log = (\<lparr>fetched.ok = True, fetched.data = Null\<rparr>, log @ [url]) \<and>
      fetchJsonLegacy net url log =
        (\<lparr>fetched.ok = False, fetched.data = Undefined\<rparr>, log @ [url])) \<and>
   (net (length log) url = Http st (Json v) \<and> resOk st \<longrightarrow>
      fetchJson net url log = (\<lparr>fetched.ok = True, fetched.data = Val v\<rparr>, log @ [url]))"
  by (simp add: fetchJson_def fetchJsonLegacy_def fetch_def fetchJsonTry_def fetchJsonLegacyTry_def)

theorem fetchJson_probe_witness:
  "fetchJson deadNet ''http://127.0.0.1:8011/health'' [] =
     (\<lparr>fetched.ok = False, fetched.data = Undefined\<rparr>, [''http://127.0.0.1:8011/health'']) \<and>
   fetchJson errorNet ''http://127.0.0.1:8011/health'' [] =
     (\<lparr>fetched.ok = False, fetched.data = Undefined\<rparr>, [''http://127.0.0.1:8011/health'']) \<and>
   fetchJsonLegacy garbledNet ''http://127.0.0.1:8011/health'' [] =
     (\<lparr>fetched.ok = False, fetched.data = Undefined\<rparr>, [''http://127.0.0.1:8011/health'']) \<and>
   fetchJson echoNet ''http://127.0.0.1:8011/health'' [] =
     (\<lparr>fetched.ok = True, fetched.data = Val (JStr ''http://127.0.0.1:8011/health'')\<rparr>,
      [''http://127.0.0.1:8011/health''])"
  using
    fetchJson_probe [where net = deadNet and log = "[]" and url = "''http://127.0.0.1:8011/health''"]
    fetchJson_probe [where net = errorNet and log = "[]" and url = "''http://127.0.0.1:8011/health''"
      and st = 500 and b = "Json (JStr ''internal error'')"]
    fetchJson_probe [where net = garbledNet and log = "[]" and url = "''http://127.0.0.1:8011/health''"
      and st = 200]
    fetchJson_probe [where net = echoNet and log = "[]" and url = "''http://127.0.0.1:8011/health''"
      and st = 200 and v = "JStr ''http://127.0.0.1:8011/health''"]
  by (simp add: deadNet_def errorNet_def garbledNet_def echoNet_def resOk_def)

section \<open>Properties of the runtime status\<close>

lemma fetchModelRuntimeStatus_primary:
  assumes "base \<noteq> []"
    and "jsonReply (net (length log) (base @ ''/internal/models/status'')) = Some p"
  shows "fetchModelRuntimeStatus net base log = (p, log @ [base @ ''/internal/models/status''])"
  using assms
  by (auto simp: fetchModelRuntimeStatus_def fetch_def statusTry_def jsonReply_def Let_def
      split: response.splits body.splits if_splits)

lemma fetchModelRuntimeStatus_secondary:
  assumes "base \<noteq> []"
    and "jsonReply (net (length log) (base @ ''/internal/models/status'')) = None"
  shows "fetchModelRuntimeStatus net base log =
           (case diagnosticsPayload (net (Suc (length log)) (base @ ''/internal/diagnostics'')) of
              Some d \<Rightarrow> reshapeDiagnostics d
            | None \<Rightarrow> JNull,
            log @ [base @ ''/internal/models/status'', base @ ''/internal/diagnostics''])"
  using assms
  by (auto simp: fetchModelRuntimeStatus_def fetch_def statusTry_def diagnosticsTry_def
      jsonReply_def diagnosticsPayload_def Let_def
      split: response.splits body.splits if_splits)

text \<open>
  C2: with a base address, \<open>fetchModelRuntimeStatus\<close> requests
  \<^verbatim>\<open>/internal/models/status\<close> first and returns the payload of a successful JSON reply
  unchanged, after that one request. On any failure of that request (a 404, any other
  status outside 200..299, a network failure or abort, a malformed body) it requests
  \<^verbatim>\<open>/internal/diagnostics\<close> next and returns its payload reshaped; if that attempt fails
  too (the request fails, or the body is \<^verbatim>\<open>null\<close>, which cannot be reshaped) it
  returns \<^verbatim>\<open>null\<close>. It never raises: every outcome of the two requests gives a value.
\<close>

theorem fetchModelRuntimeStatus_fallback:
  assumes "base \<noteq> []"
  shows
   "(jsonReply (net (length log) (base @ ''/internal/models/status'')) = Some p \<longrightarrow>
       fetchModelRuntimeStatus net base log = (p, log @ [base @ ''/internal/models/status''])) \<and>
    (jsonReply (net (length log) (base @ ''/internal/models/status'')) = None \<and>
     diagnosticsPayload (net (Suc (length log)) (base @ ''/internal/diagnostics'')) = Some d \<longrightarrow>
       fetchModelRuntimeStatus net base log =
         (reshapeDiagnostics d,
          log @ [base @ ''/internal/models/status'', base @ ''/internal/diagnostics''])) \<and>
    (jsonReply (net (length log) (base @ ''/internal/models/status'')) = None \<and>
     diagnosticsPayload (net (Suc (length log)) (base @ ''/internal/diagnostics'')) = None \<longrightarrow>
       fetchModelRuntimeStatus net base log =
         (JNull, log @ [base @ ''/internal/models/status'', base @ ''/internal/diagnostics'']))"
  using fetchModelRuntimeStatus_primary [OF assms, of net log p]
    fetchModelRuntimeStatus_secondary [OF assms, of net log]
  by simp

theorem fetchModelRuntimeStatus_fallback_witness:
  "fetchModelRuntimeStatus statusNet ''http://127.0.0.1:8080'' [] =
     (exampleStatus, [''http://127.0.0.1:8080/internal/models/status'']) \<and>
   fetchModelRuntimeStatus diagnosticsOnlyNet ''http://127.0.0.1:8080'' [] =
     (reshapeDiagnostics exampleDiagnostics,
      [''http://127.0.0.1:8080/internal/models/status'',
       ''http://127.0.0.1:8080/internal/diagnostics'']) \<and>
   fetchModelRuntimeStatus deadNet ''http://127.0.0.1:8080'' [] =
     (JNull,
      [''http://127.0.0.1:8080/internal/models/status'',
       ''http://127.0.0.1:8080/internal/diagnostics''])"
proof -
  have base: "''http://127.0.0.1:8080'' \<noteq> []" by simp
  show ?thesis
    using
      fetchModelRuntimeStatus_fallback [OF base, where net = statusNet and log = "[]"
        and p = exampleStatus]
      fetchModelRuntimeStatus_fallback [OF base, where net = diagnosticsOnlyNet and log = "[]"
        and d = exampleDiagnostics]
      fetchModelRuntimeStatus_fallback [OF base, where net = deadNet and log = "[]"]
    by (simp add: statusNet_def diagnosticsOnlyNet_def deadNet_def jsonReply_def
        diagnosticsPayload_def resOk_def exampleDiagnostics_def)
qed

lemma fetchModelRuntimeStatus_diagnostics:
  assumes "base \<noteq> []"
    and "jsonReply (net (length log) (base @ ''/internal/models/status'')) = None"
    and "diagnosticsPayload (net (Suc (length log)) (base @ ''/internal/diagnostics'')) = Some d"
  shows "fst (fetchModelRuntimeStatus net base log) = reshapeDiagnostics d"
  by (simp add: fetchModelRuntimeStatus_secondary [where net = net and log = log, OF assms(1,2)]
      assms(3))

text \<open>
  C3: when the status comes from the diagnostics endpoint, \<^verbatim>\<open>status\<close> is kept,
  \<^verbatim>\<open>loaded\<close> is the payload's \<^verbatim>\<open>handler_initialized\<close>, \<^verbatim>\<open>model_id\<close>,
  \<^verbatim>\<open>model_path\<close> and \<^verbatim>\<open>model_type\<close> are those of the payload's
  \<^verbatim>\<open>loaded_model\<close> (\<^verbatim>\<open>undefined\<close> when there is none), and \<^verbatim>\<open>queue\<close> and
  \<^verbatim>\<open>config\<close> are passed as they are when truthy and are \<^verbatim>\<open>null\<close> otherwise. On the
  specification's example the result has the members of the expected status, the member
  \<^verbatim>\<open>model_path\<close> being \<^verbatim>\<open>undefined\<close>: every member read from the result equals the
  one read from the expected status.
\<close>

theorem diagnostics_normalization:
  assumes "base \<noteq> []"
    and "jsonReply (net (length log) (base @ ''/internal/models/status'')) = None"
    and "diagnosticsPayload (net (Suc (length log)) (base @ ''/internal/diagnostics'')) = Some d"
  shows
   "getProp (fst (fetchModelRuntimeStatus net base log)) ''status'' = getProp d ''status'' \<and>
    getProp (fst (fetchModelRuntimeStatus net base log)) ''loaded'' =
      getProp d ''handler_initialized'' \<and>
    getProp (fst (fetchModelRuntimeStatus net base log)) ''model_id'' =
      (if nullish (getProp d ''loaded_model'') then JUndefined
       else getProp (getProp d ''loaded_model'') ''model_id'') \<and>
    getProp (fst (fetchModelRuntimeStatus net base log)) ''model_path'' =
      (if nullish (getProp d ''loaded_model'') then JUndefined
       else getProp (getProp d ''loaded_model'') ''model_path'') \<and>
    getProp (fst (fetchModelRuntimeStatus net base log)) ''model_type'' =
      (if nullish (getProp d ''loaded_model'') then JUndefined
       else getProp (getProp d ''loaded_model'') ''model_type'') \<and>
    getProp (fst (fetchModelRuntimeStatus net base log)) ''queue'' =
      (if truthy (getProp d ''queue'') then getProp d ''queue'' else JNull) \<and>
    getProp (fst (fetchModelRuntimeStatus net base log)) ''config'' =
      (if truthy (getProp d ''config'') then getProp d ''config'' else JNull) \<and>
    (d = exampleDiagnostics \<longrightarrow>
       fst (fetchModelRuntimeStatus net base log) =
         JObj [(''status'', JStr ''ok''), (''loaded'', JBool True), (''model_id'', JStr ''m1''),
               (''model_path'', JUndefined), (''model_type'', JStr ''chat''),
               (''queue'', JNull), (''config'', JNull)] \<and>
       (\<forall>k. getProp (fst (fetchModelRuntimeStatus net base log)) k = getProp exampleStatus k))"
  unfolding fetchModelRuntimeStatus_diagnostics [OF assms]
  by (simp add: reshapeDiagnostics_def optChain_def orNull_def exampleDiagnostics_def
      exampleStatus_def)

theorem diagnostics_normalization_witness:
  "fst (fetchModelRuntimeStatus diagnosticsOnlyNet ''http://127.0.0.1:8080'' []) =
     JObj [(''status'', JStr ''ok''), (''loaded'', JBool True), (''model_id'', JStr ''m1''),
           (''model_path'', JUndefined), (''model_type'', JStr ''chat''),
           (''queue'', JNull), (''config'', JNull)] \<and>
   (\<forall>k. getProp (fst (fetchModelRuntimeStatus diagnosticsOnlyNet ''http://127.0.0.1:8080'' [])) k =
        getProp exampleStatus k)"
proof -
  have 1: "''http://127.0.0.1:8080'' \<noteq> []" by simp
  have 2: "jsonReply (diagnosticsOnlyNet (length ([]::string list))
             (''http://127.0.0.1:8080'' @ ''/internal/models/status'')) = None"
    by (simp add: diagnosticsOnlyNet_def jsonReply_def)
  have 3: "diagnosticsPayload (diagnosticsOnlyNet (Suc (length ([]::string list)))
             (''http://127.0.0.1:8080'' @ ''/internal/diagnostics'')) = Some exampleDiagnostics"
    by (simp add: diagnosticsOnlyNet_def jsonReply_def diagnosticsPayload_def resOk_def
        exampleDiagnostics_def)
  show ?thesis using diagnostics_normalization [OF 1 2 3] by blast
qed

section \<open>Properties of the formatting\<close>

text \<open>The calendar functions at known dates: the epoch, a leap day, the largest date.\<close>

lemma calendar_samples:
  "civilFromDays 0 = (1970, 1, 1)"
  "civilFromDays 11016 = (2000, 2, 29)"
  "daysFromCivil 2000 2 29 = 11016"
  "civilFromDays (- 1) = (1969, 12, 31)"
  "civilFromDays 100000000 = (275760, 9, 13)"
  by code_simp+

lemma toISOString_samples:
  "toISOString 1700000000000 = ''2023-11-14T22:13:20.000Z''"
  "toISOString (- 1) = ''1969-12-31T23:59:59.999Z''"
  "parseDateOnly ''2025-01-01'' = Some 1735689600000"
  "parseDateOnly ''2025-02-29'' = None"
  by code_simp+

text \<open>
  C5: a numeric timestamp below 100000000000 is formatted as the date of that many
  seconds, that is of \<open>t * 1000\<close> milliseconds, and any other numeric timestamp as the
  date of \<open>t\<close> milliseconds; 1700000000 and 1700000000000 give the same date and time,
  2023-11-14 22:13.
\<close>

theorem formatTimestamp_numeric:
  "(t < 100000000000 \<longrightarrow> formatTimestamp host (JNum t) = JStr (formatMillis (t * 1000))) \<and>
   (\<not> t < 100000000000 \<longrightarrow> formatTimestamp host (JNum t) = JStr (formatMillis t)) \<and>
   formatTimestamp host (JNum 1700000000) = JStr ''2023-11-14 22:13'' \<and>
   formatTimestamp host (JNum 1700000000000) = JStr ''2023-11-14 22:13''"
proof -
  have a: "formatTimestamp host (JNum 1700000000) = JStr ''2023-11-14 22:13''"
    by code_simp
  have b: "formatTimestamp host (JNum 1700000000000) = JStr ''2023-11-14 22:13''"
    by code_simp
  show ?thesis by (simp add: a b del: formatTimestamp.simps) (simp add: Let_def)
qed

theorem formatTimestamp_numeric_witness:
  "formatTimestamp noHost (JNum 1700000000) = JStr (formatMillis 1700000000000) \<and>
   formatTimestamp noHost (JNum 1700000000000) = JStr (formatMillis 1700000000000)"
  using formatTimestamp_numeric [of 1700000000 noHost]
    formatTimestamp_numeric [of 1700000000000 noHost]
  by (simp del: formatTimestamp.simps)

section \<open>Properties of the retrieval statistics\<close>

lemma firstPresent3:
  "firstPresent ms [a, b, c] =
     (if nullish (nullishOr (nullishOr (getProp (JObj ms) a) (getProp (JObj ms) b))
                   (getProp (JObj ms) c))
      then None
      else Some (nullishOr (nullishOr (getProp (JObj ms) a) (getProp (JObj ms) b))
                   (getProp (JObj ms) c)))"
  by (simp add: nullishOr_def split: option.splits)

lemma formatTimestamp_nullish: "nullish v \<Longrightarrow> formatTimestamp host v = JStr ''-''"
  by (cases v) simp_all

lemma extractRagStats_record:
  assumes "truthy p"
    and "(if isBoolean (getProp p ''ok'')
          then (if truthy (getProp p ''ok'') then getProp p ''data'' else JNull)
          else p) = JObj ms"
  shows "extractRagStats host p = Some (statsOf host ms)"
proof -
  have "extractRagStats host p =
      Some \<lparr>count =
              (if \<not> nullish (nullishOr (nullishOr (getProp (JObj ms) ''num_documents'')
                     (getProp (JObj ms) ''documents'')) (getProp (JObj ms) ''count''))
               then toString (nullishOr (nullishOr (getProp (JObj ms) ''num_documents'')
                     (getProp (JObj ms) ''documents'')) (getProp (JObj ms) ''count''))
               else ''-''),
            ragStats.updated =
              formatTimestamp host (nullishOr (nullishOr (getProp (JObj ms) ''updated_at'')
                (getProp (JObj ms) ''generated_at'')) (getProp (JObj ms) ''created_at''))\<rparr>"
    unfolding extractRagStats_def Let_def using assms by simp
  also have "\<dots> = Some (statsOf host ms)"
    unfolding statsOf_def firstPresent3
    by (simp add: formatTimestamp_nullish del: getProp.simps formatTimestamp.simps)
  finally show ?thesis .
qed

text \<open>
  C4: for every statistics record, handed over in the wrapper \<^verbatim>\<open>{ok: true, data}\<close>
  that the status table builds, or bare when it has no boolean member \<^verbatim>\<open>ok\<close>, the
  count is the text of the first present member among \<^verbatim>\<open>num_documents\<close>,
  \<^verbatim>\<open>documents\<close>, \<^verbatim>\<open>count\<close> and the timestamp is the formatted first present member
  among \<^verbatim>\<open>updated_at\<close>, \<^verbatim>\<open>generated_at\<close>, \<^verbatim>\<open>created_at\<close>; when a group has no
  present member its output is the placeholder \<^verbatim>\<open>-\<close>, and no error is raised. The record
  \<^verbatim>\<open>{documents: 42, created_at: "2025-01-01"}\<close> gives the count \<^verbatim>\<open>42\<close> and the
  timestamp \<^verbatim>\<open>2025-01-01\<close>.
\<close>

theorem extractRagStats_priority:
  "extractRagStats host (JObj [(''ok'', JBool True), (''data'', JObj ms)]) =
     Some (statsOf host ms) \<and>
   (\<not> isBoolean (getProp (JObj ms) ''ok'') \<longrightarrow>
      extractRagStats host (JObj ms) = Some (statsOf host ms)) \<and>
   (firstPresent ms [''num_documents'', ''documents'', ''count''] = None \<longrightarrow>
      count (statsOf host ms) = ''-'') \<and>
   (firstPresent ms [''updated_at'', ''generated_at'', ''created_at''] = None \<longrightarrow>
      ragStats.updated (statsOf host ms) = JStr ''-'') \<and>
   extractRagStats host (JObj [(''documents'', JNum 42), (''created_at'', JStr ''2025-01-01'')]) =
     Some \<lparr>count = ''42'', ragStats.updated = JStr ''2025-01-01''\<rparr>"
proof -
  have ex: "extractRagStats host
      (JObj [(''documents'', JNum 42), (''created_at'', JStr ''2025-01-01'')]) =
     Some \<lparr>count = ''42'', ragStats.updated = JStr ''2025-01-01''\<rparr>"
    by code_simp
  have a: "extractRagStats host (JObj [(''ok'', JBool True), (''data'', JObj ms)]) =
      Some (statsOf host ms)"
    by (rule extractRagStats_record) simp_all
  have b: "\<not> isBoolean (getProp (JObj ms) ''ok'') \<Longrightarrow>
      extractRagStats host (JObj ms) = Some (statsOf host ms)"
    by (rule extractRagStats_record) simp_all
  have c: "firstPresent ms [''num_documents'', ''documents'', ''count''] = None \<Longrightarrow>
      count (statsOf host ms) = ''-''"
    by (simp add: statsOf_def del: firstPresent.simps)
  have d: "firstPresent ms [''updated_at'', ''generated_at'', ''created_at''] = None \<Longrightarrow>
      ragStats.updated (statsOf host ms) = JStr ''-''"
    by (simp add: statsOf_def del: firstPresent.simps)
  show ?thesis using a b c d ex by blast
qed

theorem extractRagStats_priority_witness:
  "extractRagStats noHost (JObj exampleStats) = Some (statsOf noHost exampleStats) \<and>
   statsOf noHost exampleStats = \<lparr>count = ''42'', ragStats.updated = JStr ''2025-01-01''\<rparr> \<and>
   count (statsOf noHost []) = ''-'' \<and> ragStats.updated (statsOf noHost []) = JStr ''-''"
proof -
  have "statsOf noHost exampleStats = \<lparr>count = ''42'', ragStats.updated = JStr ''2025-01-01''\<rparr>"
    by code_simp
  then show ?thesis
    using extractRagStats_priority [of noHost exampleStats] extractRagStats_priority [of noHost "[]"]
    by (simp add: exampleStats_def)
qed

section \<open>Properties of the posts\<close>

lemma loadPosts_unavailable:
  assumes "postsUnavailable (net (length log) ''/posts.json'')"
  shows "loadPosts net log = (fallbackPosts, log @ [''/posts.json''])"
  using assms
  by (auto simp: loadPosts_def loadPostsTry_def fetch_def postsUnavailable_def jsonReply_def
      split: response.splits body.splits if_splits)

lemma fallback_cards:
  "renderPosts host (Some old) (getProp fallbackPosts ''posts'') =
     (Some
        [cardMarkup ''Anthology'' ''2025-12-28'' ''anthology summary''
           ''Anthology brief: what changed this week''
           ''Snapshot of new documents, system shifts, and active experiments.''
           ''kokoro_default'',
         cardMarkup ''mlx-services'' ''2025-12-27'' ''rag maintenance''
           ''Voice notes: RAG maintenance signals''
           ''Covers collection health, sync gaps, and query thresholds.''
           ''kokoro_default'',
         cardMarkup ''le-belle-epoch'' ''2025-12-26'' ''blog pipeline''
           ''Generator pipeline: markdown to posts.json''
           ''Outline of the static build flow and runtime overlays.''
           ''kokoro_default'',
         cardMarkup ''mlx-services'' ''2025-12-25'' ''mlx status''
           ''System table: mlx-services alignment''
           ''Status boards for llm, rag, audio, and mcp endpoints.''
           ''kokoro_default''],
      None)"
  by code_simp

lemma fallback_ids:
  "map (\<lambda>p. getProp p ''id'') (arrayElements (getProp fallbackPosts ''posts'')) =
     [JStr ''anthology-brief-001'', JStr ''voice-notes-002'', JStr ''generator-003'',
      JStr ''systems-004'']"
  by (simp add: fallbackPosts_def)

text \<open>
  C8: if the request for \<^verbatim>\<open>/posts.json\<close> fails in any way (a network error, a status
  outside 200..299, a body that is not JSON, or a body whose \<^verbatim>\<open>posts\<close> member is
  missing or is not an array), \<open>loadPosts\<close> returns the embedded payload after that one
  request: four posts, \<^verbatim>\<open>anthology-brief-001\<close>, \<^verbatim>\<open>voice-notes-002\<close>,
  \<^verbatim>\<open>generator-003\<close>, \<^verbatim>\<open>systems-004\<close> in this order. Rendering its posts into the
  post list, whatever the list held before, leaves exactly the four cards of these posts in
  the same order, and raises nothing.
\<close>

theorem loadPosts_fallback:
  assumes "postsUnavailable (net (length log) ''/posts.json'')"
  shows
   "loadPosts net log = (fallbackPosts, log @ [''/posts.json'']) \<and>
    map (\<lambda>p. getProp p ''id'') (arrayElements (getProp (fst (loadPosts net log)) ''posts'')) =
      [JStr ''anthology-brief-001'', JStr ''voice-notes-002'', JStr ''generator-003'',
       JStr ''systems-004''] \<and>
    renderPosts host (Some old) (getProp (fst (loadPosts net log)) ''posts'') =
      (Some
         [cardMarkup ''Anthology'' ''2025-12-28'' ''anthology summary''
            ''Anthology brief: what changed this week''
            ''Snapshot of new documents, system shifts, and active experiments.''
            ''kokoro_default'',
          cardMarkup ''mlx-services'' ''2025-12-27'' ''rag maintenance''
            ''Voice notes: RAG maintenance signals''
            ''Covers collection health, sync gaps, and query thresholds.''
            ''kokoro_default'',
          cardMarkup ''le-belle-epoch'' ''2025-12-26'' ''blog pipeline''
            ''Generator pipeline: markdown to posts.json''
            ''Outline of the static build flow and runtime overlays.''
            ''kokoro_default'',
          cardMarkup ''mlx-services'' ''2025-12-25'' ''mlx status''
            ''System table: mlx-services alignment''
            ''Status boards for llm, rag, audio, and mcp endpoints.''
            ''kokoro_default''],
       None)"
  unfolding loadPosts_unavailable [where net = net and log = log, OF assms] fst_conv
    fallback_ids fallback_cards
  by simp

theorem loadPosts_fallback_witness:
  "loadPosts deadNet [] = (fallbackPosts, [''/posts.json'']) \<and>
   loadPosts errorNet [] = (fallbackPosts, [''/posts.json'']) \<and>
   loadPosts garbledNet [] = (fallbackPosts, [''/posts.json'']) \<and>
   loadPosts echoNet [] = (fallbackPosts, [''/posts.json'']) \<and>
   map (\<lambda>p. getProp p ''id'') (arrayElements (getProp (fst (loadPosts deadNet [])) ''posts'')) =
     [JStr ''anthology-brief-001'', JStr ''voice-notes-002'', JStr ''generator-003'',
      JStr ''systems-004'']"
proof -
  have 1: "postsUnavailable (deadNet (length ([]::string list)) ''/posts.json'')"
    by (simp add: postsUnavailable_def jsonReply_def deadNet_def)
  have 2: "postsUnavailable (errorNet (length ([]::string list)) ''/posts.json'')"
    by (simp add: postsUnavailable_def jsonReply_def errorNet_def resOk_def)
  have 3: "postsUnavailable (garbledNet (length ([]::string list)) ''/posts.json'')"
    by (simp add: postsUnavailable_def jsonReply_def garbledNet_def)
  have 4: "postsUnavailable (echoNet (length ([]::string list)) ''/posts.json'')"
    by (simp add: postsUnavailable_def jsonReply_def echoNet_def resOk_def)
  note d = loadPosts_fallback [where net = deadNet and log = "[]" and host = noHost and old = "[]",
      OF 1]
  note e = loadPosts_fallback [where net = errorNet and log = "[]" and host = noHost and old = "[]",
      OF 2]
  note g = loadPosts_fallback [where net = garbledNet and log = "[]" and host = noHost
      and old = "[]", OF 3]
  note c = loadPosts_fallback [where net = echoNet and log = "[]" and host = noHost and old = "[]",
      OF 4]
  have "loadPosts deadNet [] = (fallbackPosts, [''/posts.json''])"
    using d by (simp only: append_Nil)
  moreover have "loadPosts errorNet [] = (fallbackPosts, [''/posts.json''])"
    using e by (simp only: append_Nil)
  moreover have "loadPosts garbledNet [] = (fallbackPosts, [''/posts.json''])"
    using g by (simp only: append_Nil)
  moreover have "loadPosts echoNet [] = (fallbackPosts, [''/posts.json''])"
    using c by (simp only: append_Nil)
  moreover have "map (\<lambda>p. getProp p ''id'')
      (arrayElements (getProp (fst (loadPosts deadNet [])) ''posts'')) =
     [JStr ''anthology-brief-001'', JStr ''voice-notes-002'', JStr ''generator-003'',
      JStr ''systems-004'']"
    using d by (rule conjunct2 [THEN conjunct1])
  ultimately show ?thesis by (intro conjI)
qed

section \<open>Properties of the status table\<close>

lemma probeServices_resources:
  "map resource (fst (probeServices net svcs rows log)) = map resource rows @ map fst svcs"
proof (induction svcs arbitrary: rows log)
  case Nil
  show ?case by simp
next
  case (Cons s svcs)
  obtain r t b h where s: "s = (r, t, b, h)" by (cases s) auto
  show ?case unfolding s by (simp add: fetchJson_eq Cons.IH)
qed

lemma probeServices_log:
  "snd (probeServices net svcs rows log) = log @ map (\<lambda>(r, t, b, h). b @ h) svcs"
proof (induction svcs arbitrary: rows log)
  case Nil
  show ?case by simp
next
  case (Cons s svcs)
  obtain r t b h where s: "s = (r, t, b, h)" by (cases s) auto
  show ?case unfolding s by (simp add: fetchJson_eq Cons.IH)
qed

lemma probeCollections_prefix:
  "\<exists>more. fst (probeCollections host cfg eco net cs rows log) = rows @ more \<and>
          map resource more = map (\<lambda>c. ''rag:'' @ c) cs"
proof (induction cs arbitrary: rows log)
  case Nil
  show ?case by simp
next
  case (Cons c cs)
  show ?case
  proof (cases "truthy (ecosystemRagStats eco) \<and>
      (case eco of Some e \<Rightarrow> collection e = Val c | None \<Rightarrow> False)")
    case True
    obtain more where m: "fst (probeCollections host cfg eco net cs
        (rows @ [collectionRow cfg c (extractRagStats host (ecosystemRagStats eco))]) log) =
        (rows @ [collectionRow cfg c (extractRagStats host (ecosystemRagStats eco))]) @ more"
      "map resource more = map (\<lambda>c. ''rag:'' @ c) cs"
      using Cons.IH by blast
    show ?thesis
      using True m
      by (intro exI [of _ "collectionRow cfg c (extractRagStats host (ecosystemRagStats eco)) # more"])
         (simp add: collectionRow_def)
  next
    case False
    let ?url = "ragBaseUrl cfg @ ''/rag_stats?collection='' @ encodeURIComponent c"
    let ?resp = "fetchJsonResult (net (length log) ?url)"
    let ?payload = "if fetched.ok ?resp
                   then JObj [(''ok'', JBool True), (''data'', nullableToJs (fetched.data ?resp))]
                   else JNull"
    obtain more where m: "fst (probeCollections host cfg eco net cs
        (rows @ [collectionRow cfg c (extractRagStats host ?payload)]) (log @ [?url])) =
        (rows @ [collectionRow cfg c (extractRagStats host ?payload)]) @ more"
      "map resource more = map (\<lambda>c. ''rag:'' @ c) cs"
      using Cons.IH by blast
    show ?thesis
      using False m
      by (intro exI [of _ "collectionRow cfg c (extractRagStats host ?payload) # more"])
         (auto simp: collectionRow_def fetchJson_eq Let_def)
  qed
qed

lemma probeCollections_log:
  assumes "\<not> truthy (ecosystemRagStats eco)"
  shows "snd (probeCollections host cfg eco net cs rows log) =
     log @ map (\<lambda>c. ragBaseUrl cfg @ ''/rag_stats?collection='' @ encodeURIComponent c) cs"
  using assms
  by (induction cs arbitrary: rows log) (simp_all add: fetchJson_eq Let_def)

lemma encode_names:
  "encodeURIComponent ''anthology'' = ''anthology''"
  "encodeURIComponent ''blog'' = ''blog''"
  "encodeURIComponent ''projects'' = ''projects''"
  by code_simp+

lemma loadEcosystem_eq:
  "loadEcosystem cfg netE log =
     (if llmBaseUrl cfg \<noteq> []
      then (case jsonReply (netE (length log) (ecosystemUrl cfg)) of
              Some (Some e) \<Rightarrow> Some e | _ \<Rightarrow> None,
            log @ [ecosystemUrl cfg])
      else (None, log))"
  by (auto simp: loadEcosystem_def fetchJson_eq fetchJsonResult_def fetchJsonTry_def jsonReply_def
      ecosystemUrl_def split: response.splits body.splits option.splits)

lemma aggregateRows_resources:
  "\<exists>mid. map resource (aggregateRows host cfg e svcs) =
           [''mlx-llm'', ''mlx-rag'', ''mlx-audio''] @ mid \<and>
         mid \<in> {[], [''mlx-vlm''], [''mlx-mcp''], [''mlx-vlm'', ''mlx-mcp'']}"
  by (simp add: aggregateRows_def addServiceRow_def Let_def)

lemma loadSystemRows_eq:
  "loadSystemRows host cfg netE net log =
     probeCollections host cfg (fst (loadEcosystem cfg netE log)) net
       [''anthology'', ''blog'', ''projects'']
       (fst (serviceRowsOf host cfg (fst (loadEcosystem cfg netE log)) net
              (snd (loadEcosystem cfg netE log))))
       (snd (serviceRowsOf host cfg (fst (loadEcosystem cfg netE log)) net
              (snd (loadEcosystem cfg netE log))))"
  unfolding loadSystemRows_def serviceRowsOf_def Let_def
  by (simp add: case_prod_unfold)

lemma healthServices_resources:
  "map resource (fst (probeServices net (healthServices cfg) [] log1)) =
     [''mlx-llm'', ''mlx-rag'', ''mlx-audio'']"
  unfolding probeServices_resources by (simp add: healthServices_def)

lemma serviceRowsOf_resources:
  "\<exists>mid. map resource (fst (serviceRowsOf host cfg eco net log1)) =
           [''mlx-llm'', ''mlx-rag'', ''mlx-audio''] @ mid \<and>
         mid \<in> {[], [''mlx-vlm''], [''mlx-mcp''], [''mlx-vlm'', ''mlx-mcp'']}"
proof (cases eco)
  case None
  then show ?thesis
    by (simp add: serviceRowsOf_def healthServices_resources)
next
  case (Some e)
  show ?thesis
  proof (cases "services e")
    case (Val svcs)
    then show ?thesis
      using Some aggregateRows_resources [of host cfg e svcs] by (simp add: serviceRowsOf_def)
  qed (simp_all add: Some serviceRowsOf_def healthServices_resources)
qed

lemma loadSystemRows_order:
  "\<exists>mid. map resource (fst (loadSystemRows host cfg netE net log)) =
           [''mlx-llm'', ''mlx-rag'', ''mlx-audio''] @ mid @
           [''rag:anthology'', ''rag:blog'', ''rag:projects''] \<and>
         mid \<in> {[], [''mlx-vlm''], [''mlx-mcp''], [''mlx-vlm'', ''mlx-mcp'']}"
proof -
  let ?eco = "fst (loadEcosystem cfg netE log)"
  let ?sr = "serviceRowsOf host cfg ?eco net (snd (loadEcosystem cfg netE log))"
  obtain mid where mid: "map resource (fst ?sr) = [''mlx-llm'', ''mlx-rag'', ''mlx-audio''] @ mid"
    "mid \<in> {[], [''mlx-vlm''], [''mlx-mcp''], [''mlx-vlm'', ''mlx-mcp'']}"
    using serviceRowsOf_resources by blast
  obtain more where more:
    "fst (probeCollections host cfg ?eco net [''anthology'', ''blog'', ''projects'']
            (fst ?sr) (snd ?sr)) = fst ?sr @ more"
    "map resource more = map (\<lambda>c. ''rag:'' @ c) [''anthology'', ''blog'', ''projects'']"
    using probeCollections_prefix by blast
  have "map resource (fst (loadSystemRows host cfg netE net log)) =
      ([''mlx-llm'', ''mlx-rag'', ''mlx-audio''] @ mid) @
      [''rag:anthology'', ''rag:blog'', ''rag:projects'']"
    unfolding loadSystemRows_eq more(1) map_append mid(1) more(2) by simp
  then show ?thesis using mid(2) by auto
qed

lemma unavailable_ecosystem:
  assumes "aggregateServices cfg (netE (length log) (ecosystemUrl cfg)) = None"
  shows "serviceRowsOf host cfg (fst (loadEcosystem cfg netE log)) net log1 =
           probeServices net (healthServices cfg) [] log1"
    and "ecosystemRagStats (fst (loadEcosystem cfg netE log)) = JUndefined"
  using assms
  by (auto simp: aggregateServices_def loadEcosystem_eq serviceRowsOf_def ecosystemRagStats_def
      ecosystemServices_def split: option.splits nullable.splits if_splits)

lemma available_ecosystem:
  assumes "aggregateServices cfg (netE (length log) (ecosystemUrl cfg)) = Some (e, svcs)"
  shows "serviceRowsOf host cfg (fst (loadEcosystem cfg netE log)) net log1 =
           (aggregateRows host cfg e svcs, log1)"
  using assms
  by (auto simp: aggregateServices_def loadEcosystem_eq serviceRowsOf_def
      split: option.splits nullable.splits if_splits)

lemma hd_loadSystemRows:
  "hd (fst (loadSystemRows host cfg netE net log)) =
     hd (fst (serviceRowsOf host cfg (fst (loadEcosystem cfg netE log)) net
               (snd (loadEcosystem cfg netE log))))"
proof -
  let ?eco = "fst (loadEcosystem cfg netE log)"
  let ?sr = "serviceRowsOf host cfg ?eco net (snd (loadEcosystem cfg netE log))"
  obtain mid where "map resource (fst ?sr) = [''mlx-llm'', ''mlx-rag'', ''mlx-audio''] @ mid"
    using serviceRowsOf_resources by blast
  then have ne: "fst ?sr \<noteq> []" by auto
  obtain more where
    "fst (probeCollections host cfg ?eco net [''anthology'', ''blog'', ''projects'']
            (fst ?sr) (snd ?sr)) = fst ?sr @ more"
    using probeCollections_prefix by blast
  then show ?thesis unfolding loadSystemRows_eq using ne by simp
qed

lemma trimModelId_dash: "s \<noteq> [] \<Longrightarrow> trimModelId (Val s) = ''-'' \<longleftrightarrow> s = ''-''"
proof (cases "52 < length s")
  case True
  then have "length (trimModelId (Val s)) = 45" by (rule trimModelId_long_length)
  then show ?thesis using True by auto
next
  case False
  assume "s \<noteq> []"
  then show ?thesis using False by (simp add: trimModelId_def)
qed

text \<open>
  C7, as stated, fails. With \<^verbatim>\<open>services.llm.ok = false\<close> the service entry exists, and
  the placeholder \<^verbatim>\<open>-\<close> is kept for an entry that does not: when the model identifier
  is absent and \<^verbatim>\<open>loaded\<close> is falsy the row shows \<^verbatim>\<open>unloaded\<close>, not \<^verbatim>\<open>-\<close>; and the
  row does show \<^verbatim>\<open>-\<close> with a model identifier present, when that identifier is
  \<^verbatim>\<open>-\<close> itself.
\<close>

theorem loadSystemRows_llm_down_counterexample:
  "status (hd (fst (loadSystemRows noHost exampleConfig (llmDownNet Undefined) deadNet []))) =
     ''down'' \<and>
   model_id (llmDownService Undefined) = Undefined \<and>
   loaded (llmDownService Undefined) = Undefined \<and>
   docs (hd (fst (loadSystemRows noHost exampleConfig (llmDownNet Undefined) deadNet []))) =
     ''unloaded'' \<and>
   model_id (llmDownService (Val ''-'')) = Val ''-'' \<and>
   docs (hd (fst (loadSystemRows noHost exampleConfig (llmDownNet (Val ''-'')) deadNet []))) =
     ''-''"
  by (simp add: hd_loadSystemRows loadEcosystem_eq exampleConfig_def llmDownNet_def jsonReply_def
      resOk_def serviceRowsOf_def aggregateRows_def addServiceRow_def llmDocs_def
      llmDownService_def llmDownServices_def llmDownStatus_def trimModelId_def Let_def)

text \<open>
  C7 (amended): when the aggregate endpoint answers with \<^verbatim>\<open>services.llm.ok = false\<close>,
  the first row of the table is the one of \<^verbatim>\<open>mlx-llm\<close>, its status is \<^verbatim>\<open>down\<close>, and
  its docs field is the trimmed model identifier when the identifier is present and not
  empty, else \<^verbatim>\<open>loaded\<close> when \<^verbatim>\<open>loaded\<close> is truthy, else \<^verbatim>\<open>unloaded\<close>. The docs
  field is \<^verbatim>\<open>-\<close> only when the model identifier itself is \<^verbatim>\<open>-\<close>.
\<close>

theorem loadSystemRows_llm_down:
  assumes "aggregateServices cfg (netE (length log) (ecosystemUrl cfg)) = Some (e, svcs)"
    and "llm svcs = Val svc"
    and "ok svc = Val False"
  shows
   "resource (hd (fst (loadSystemRows host cfg netE net log))) = ''mlx-llm'' \<and>
    status (hd (fst (loadSystemRows host cfg netE net log))) = ''down'' \<and>
    docs (hd (fst (loadSystemRows host cfg netE net log))) =
      (if truthyStr (model_id svc) then trimModelId (model_id svc)
       else if truthyBool (loaded svc) then ''loaded''
       else ''unloaded'') \<and>
    (docs (hd (fst (loadSystemRows host cfg netE net log))) = ''-'' \<longleftrightarrow>
       model_id svc = Val ''-'')"
proof -
  have hd: "hd (fst (loadSystemRows host cfg netE net log)) =
      addServiceRow (formatTimestamp host (generated_at e)) ''mlx-llm'' (Val svc) (llmBaseUrl cfg)
        (llmDocs (Val svc))"
    unfolding hd_loadSystemRows available_ecosystem [of cfg netE log, OF assms(1)]
    by (simp add: aggregateRows_def Let_def assms(2))
  have dash: "llmDocs (Val svc) = ''-'' \<longleftrightarrow> model_id svc = Val ''-''"
  proof (cases "model_id svc")
    case (Val s)
    then show ?thesis using trimModelId_dash [of s] by (auto simp: llmDocs_def)
  qed (simp_all add: llmDocs_def)
  show ?thesis
    unfolding hd using dash by (simp add: addServiceRow_def assms(3)) (simp add: llmDocs_def)
qed

theorem loadSystemRows_llm_down_witness:
  "resource (hd (fst (loadSystemRows noHost exampleConfig (llmDownNet (Val ''m1'')) deadNet []))) =
     ''mlx-llm'' \<and>
   status (hd (fst (loadSystemRows noHost exampleConfig (llmDownNet (Val ''m1'')) deadNet []))) =
     ''down'' \<and>
   docs (hd (fst (loadSystemRows noHost exampleConfig (llmDownNet (Val ''m1'')) deadNet []))) =
     ''m1''"
proof -
  have 1: "aggregateServices exampleConfig
      (llmDownNet (Val ''m1'') (length ([]::string list)) (ecosystemUrl exampleConfig)) =
      Some (llmDownStatus (Val ''m1''), llmDownServices (Val ''m1''))"
    by (simp add: aggregateServices_def exampleConfig_def llmDownNet_def jsonReply_def resOk_def
        llmDownStatus_def)
  have 2: "llm (llmDownServices (Val ''m1'')) = Val (llmDownService (Val ''m1''))"
    by (simp add: llmDownServices_def)
  have 3: "ok (llmDownService (Val ''m1'')) = Val False"
    by (simp add: llmDownService_def)
  show ?thesis
    using loadSystemRows_llm_down [where cfg = exampleConfig and netE = "llmDownNet (Val ''m1'')"
        and log = "[]" and host = noHost and net = deadNet, OF 1 2 3]
    by (simp add: llmDownService_def trimModelId_def)
qed

text \<open>
  C9: in every case the rows come in the fixed order: \<^verbatim>\<open>mlx-llm\<close>, \<^verbatim>\<open>mlx-rag\<close>,
  \<^verbatim>\<open>mlx-audio\<close> first (followed by \<^verbatim>\<open>mlx-vlm\<close> and \<^verbatim>\<open>mlx-mcp\<close> only when the
  aggregate reply has them), then \<^verbatim>\<open>rag:anthology\<close>, \<^verbatim>\<open>rag:blog\<close>, \<^verbatim>\<open>rag:projects\<close>.
  When the aggregate endpoint is unavailable, whatever the individual probes answer, the
  rows are exactly these six, and the requests made are the aggregate probe (when the page
  has a base address for it), one \<^verbatim>\<open>/health\<close> probe per service and one
  \<^verbatim>\<open>rag_stats\<close> probe per collection, in this order.
\<close>

theorem loadSystemRows_degraded:
  "(\<exists>mid. map resource (fst (loadSystemRows host cfg netE net log)) =
           [''mlx-llm'', ''mlx-rag'', ''mlx-audio''] @ mid @
           [''rag:anthology'', ''rag:blog'', ''rag:projects''] \<and>
         mid \<in> {[], [''mlx-vlm''], [''mlx-mcp''], [''mlx-vlm'', ''mlx-mcp'']}) \<and>
   (aggregateServices cfg (netE (length log) (ecosystemUrl cfg)) = None \<longrightarrow>
      map resource (fst (loadSystemRows host cfg netE net log)) =
        [''mlx-llm'', ''mlx-rag'', ''mlx-audio'', ''rag:anthology'', ''rag:blog'', ''rag:projects''] \<and>
      snd (loadSystemRows host cfg netE net log) =
        log @ (if llmBaseUrl cfg = [] then [] else [ecosystemUrl cfg]) @
        [llmBaseUrl cfg @ ''/health'', ragBaseUrl cfg @ ''/health'', audioBaseUrl cfg @ ''/health'',
         ragBaseUrl cfg @ ''/rag_stats?collection=anthology'',
         ragBaseUrl cfg @ ''/rag_stats?collection=blog'',
         ragBaseUrl cfg @ ''/rag_stats?collection=projects''])"
proof (intro conjI impI)
  show "\<exists>mid. map resource (fst (loadSystemRows host cfg netE net log)) =
           [''mlx-llm'', ''mlx-rag'', ''mlx-audio''] @ mid @
           [''rag:anthology'', ''rag:blog'', ''rag:projects''] \<and>
         mid \<in> {[], [''mlx-vlm''], [''mlx-mcp''], [''mlx-vlm'', ''mlx-mcp'']}"
    by (rule loadSystemRows_order)
next
  assume un: "aggregateServices cfg (netE (length log) (ecosystemUrl cfg)) = None"
  let ?eco = "fst (loadEcosystem cfg netE log)"
  let ?log1 = "snd (loadEcosystem cfg netE log)"
  let ?sr = "probeServices net (healthServices cfg) [] ?log1"
  have eq: "loadSystemRows host cfg netE net log =
      probeCollections host cfg ?eco net [''anthology'', ''blog'', ''projects''] (fst ?sr) (snd ?sr)"
    unfolding loadSystemRows_eq unavailable_ecosystem(1) [of cfg netE log, OF un] ..
  obtain more where more:
    "fst (probeCollections host cfg ?eco net [''anthology'', ''blog'', ''projects'']
            (fst ?sr) (snd ?sr)) = fst ?sr @ more"
    "map resource more = map (\<lambda>c. ''rag:'' @ c) [''anthology'', ''blog'', ''projects'']"
    using probeCollections_prefix by blast
  show "map resource (fst (loadSystemRows host cfg netE net log)) =
        [''mlx-llm'', ''mlx-rag'', ''mlx-audio'', ''rag:anthology'', ''rag:blog'', ''rag:projects'']"
    unfolding eq more(1) map_append more(2) healthServices_resources
    by simp
  have falsy: "\<not> truthy (ecosystemRagStats ?eco)"
    by (simp add: unavailable_ecosystem(2) [of cfg netE log, OF un])
  have log1: "?log1 = log @ (if llmBaseUrl cfg = [] then [] else [ecosystemUrl cfg])"
    by (simp add: loadEcosystem_eq)
  show "snd (loadSystemRows host cfg netE net log) =
        log @ (if llmBaseUrl cfg = [] then [] else [ecosystemUrl cfg]) @
        [llmBaseUrl cfg @ ''/health'', ragBaseUrl cfg @ ''/health'', audioBaseUrl cfg @ ''/health'',
         ragBaseUrl cfg @ ''/rag_stats?collection=anthology'',
         ragBaseUrl cfg @ ''/rag_stats?collection=blog'',
         ragBaseUrl cfg @ ''/rag_stats?collection=projects'']"
    unfolding eq probeCollections_log [OF falsy] probeServices_log log1
    by (simp add: healthServices_def encode_names)
qed

theorem loadSystemRows_degraded_witness:
  "map resource (fst (loadSystemRows noHost exampleConfig deadAggregate garbledNet [])) =
     [''mlx-llm'', ''mlx-rag'', ''mlx-audio'', ''rag:anthology'', ''rag:blog'', ''rag:projects''] \<and>
   snd (loadSystemRows noHost exampleConfig deadAggregate garbledNet []) =
     [''http://127.0.0.1:8080/internal/ecosystem/status?collection=anthology'',
      ''http://127.0.0.1:8080/health'', ''http://127.0.0.1:8011/health'',
      ''http://127.0.0.1:7001/health'',
      ''http://127.0.0.1:8011/rag_stats?collection=anthology'',
      ''http://127.0.0.1:8011/rag_stats?collection=blog'',
      ''http://127.0.0.1:8011/rag_stats?collection=projects'']"
  using loadSystemRows_degraded [of noHost exampleConfig deadAggregate garbledNet "[]"]
  by (simp add: aggregateServices_def deadAggregate_def jsonReply_def exampleConfig_def
      ecosystemUrl_def)

end
